theory Spec2Isabelle
  imports Main "HOL-Library.Sublist" "HOL-Library.Multiset"
begin

section \<open>The continuous-integration workflows\<close>

text \<open>
  The workflow files are declarative: a list of steps, each with an optional \<open>if\<close>
  expression and either a \<open>uses\<close> action or a \<open>run\<close> shell script, with \<open>${{ ... }}\<close>
  expressions interpolated into the text. The model keeps the files as data and gives the
  steps the meaning the runner gives them: expressions are evaluated, a step is run when its
  \<open>if\<close> holds, a run step's command line is the text with every expression replaced by its
  value, and a step's outputs are what its script announces with \<open>::set-output\<close>.

  The model follows a job in which no command ends with a failure status of its own, so that
  every step is reached; what the runner does after a command has failed is not modelled.
\<close>

subsection \<open>Strings and numbers of the expression language\<close>

definition lower :: "char \<Rightarrow> char" where
  "lower c = (let n = (of_char c :: nat) in if 65 \<le> n \<and> n \<le> 90 then char_of (n + 32) else c)"

definition is_digit :: "char \<Rightarrow> bool" where
  "is_digit c = (48 \<le> (of_char c :: nat) \<and> (of_char c :: nat) \<le> 57)"

definition digit_val :: "char \<Rightarrow> nat" where
  "digit_val c = (of_char c :: nat) - 48"

definition digit_char :: "nat \<Rightarrow> char" where
  "digit_char d = char_of (48 + d)"

text \<open>The decimal numeral of a natural number, as a process writes its exit status.\<close>

fun decimal :: "nat \<Rightarrow> string" where
  "decimal n = (if n < 10 then [digit_char n] else decimal (n div 10) @ [digit_char (n mod 10)])"

declare decimal.simps [simp del]

fun digits_value :: "nat \<Rightarrow> string \<Rightarrow> nat option" where
  "digits_value acc [] = Some acc"
| "digits_value acc (c # cs) =
     (if is_digit c then digits_value (10 * acc + digit_val c) cs else None)"

text \<open>
  The coercion of a string to a number: the empty string is 0, a decimal numeral with an
  optional sign is its value, and a text that is no number is NaN (\<open>None\<close>). Fractions and
  exponents, which the runner also reads, do not occur in a recorded exit status and are
  outside this model.
\<close>

definition string_to_number :: "string \<Rightarrow> int option" where
  "string_to_number s =
     (case s of
        [] \<Rightarrow> Some 0
      | c # cs \<Rightarrow>
          if c = CHR ''-'' \<and> cs \<noteq> [] then map_option (\<lambda>n. - int n) (digits_value 0 cs)
          else map_option int (digits_value 0 s))"

datatype gh_value = VStr string | VNum int | VBool bool

fun to_number :: "gh_value \<Rightarrow> int option" where
  "to_number (VStr s) = string_to_number s"
| "to_number (VNum n) = Some n"
| "to_number (VBool b) = Some (if b then 1 else 0)"

fun to_string :: "gh_value \<Rightarrow> string" where
  "to_string (VStr s) = s"
| "to_string (VNum n) = (if n < 0 then CHR ''-'' # decimal (nat (- n)) else decimal (nat n))"
| "to_string (VBool b) = (if b then ''true'' else ''false'')"

fun truthy :: "gh_value \<Rightarrow> bool" where
  "truthy (VStr s) = (s \<noteq> [])"
| "truthy (VNum n) = (n \<noteq> 0)"
| "truthy (VBool b) = b"

text \<open>
  \<open>contains(search, item)\<close> on strings: \<open>item\<close> is a substring of \<open>search\<close>; the runner
  ignores letter case. \<open>==\<close> compares two strings ignoring case and coerces operands of
  different types to numbers, NaN being equal to nothing; \<open>!=\<close> is its negation.
\<close>

definition gh_contains :: "string \<Rightarrow> string \<Rightarrow> bool" where
  "gh_contains search item = sublist (map lower item) (map lower search)"

fun gh_equal :: "gh_value \<Rightarrow> gh_value \<Rightarrow> bool" where
  "gh_equal (VStr a) (VStr b) = (map lower a = map lower b)"
| "gh_equal v w =
     (case (to_number v, to_number w) of (Some a, Some b) \<Rightarrow> a = b | _ \<Rightarrow> False)"

subsection \<open>Expressions and their contexts\<close>

datatype gh_expr =
    Env string
  | Secret string
  | Input string
  | Matrix string
  | StepOutput string string
  | StrLit string
  | NumLit int
  | Contains gh_expr gh_expr
  | NotEqual gh_expr gh_expr
  | Github string
  | AndAlso gh_expr gh_expr
  | OrElse gh_expr gh_expr

text \<open>
  What a run receives from outside the workflow file: the secrets, the inputs of the
  workflow call, the matrix entry of the job, the runner's shell, which answers a
  command substitution \<open>$(command)\<close> with the command's output, and the \<open>github\<close>
  context of the run (\<open>github.ref\<close>, \<open>github.sha\<close>).

  \<open>a && b\<close> is \<open>b\<close> when \<open>a\<close> is truthy and \<open>a\<close> otherwise; \<open>a || b\<close> is \<open>a\<close> when \<open>a\<close> is
  truthy and \<open>b\<close> otherwise.
\<close>

record run_context =
  secrets :: "string \<Rightarrow> string"
  inputs :: "string \<Rightarrow> string"
  matrix :: "string \<Rightarrow> string"
  shell :: "string \<Rightarrow> string"
  github :: "string \<Rightarrow> string"

text \<open>A property that is not set reads as the empty string.\<close>

definition lookup :: "('k \<times> string) list \<Rightarrow> 'k \<Rightarrow> string" where
  "lookup kvs k = (case map_of kvs k of None \<Rightarrow> [] | Some v \<Rightarrow> v)"

type_synonym step_outputs = "((string \<times> string) \<times> string) list"

fun eval :: "(string \<times> string) list \<Rightarrow> run_context \<Rightarrow> step_outputs \<Rightarrow> gh_expr \<Rightarrow> gh_value" where
  "eval env c outs (Env n) = VStr (lookup env n)"
| "eval env c outs (Secret n) = VStr (secrets c n)"
| "eval env c outs (Input n) = VStr (inputs c n)"
| "eval env c outs (Matrix n) = VStr (matrix c n)"
| "eval env c outs (StepOutput i n) = VStr (lookup outs (i, n))"
| "eval env c outs (StrLit s) = VStr s"
| "eval env c outs (NumLit k) = VNum k"
| "eval env c outs (Contains a b) =
     VBool (gh_contains (to_string (eval env c outs a)) (to_string (eval env c outs b)))"
| "eval env c outs (NotEqual a b) = VBool (\<not> gh_equal (eval env c outs a) (eval env c outs b))"
| "eval env c outs (Github n) = VStr (github c n)"
| "eval env c outs (AndAlso a b) =
     (if truthy (eval env c outs a) then eval env c outs b else eval env c outs a)"
| "eval env c outs (OrElse a b) =
     (if truthy (eval env c outs a) then eval env c outs a else eval env c outs b)"

subsection \<open>Shell scripts of run steps\<close>

text \<open>
  A word of a command line is a sequence of fragments: literal text, an interpolated
  expression \<open>${{ e }}\<close>, a shell variable \<open>$name\<close>, or a command substitution \<open>$(words)\<close>.
  The literal text is the text of the file, shell quotes included.
\<close>

datatype frag =
    Lit string
  | Ex gh_expr
  | Var string
  | Subst "frag list list"

type_synonym word = "frag list"

definition join :: "string list \<Rightarrow> string" where
  "join ws = (case ws of [] \<Rightarrow> [] | w # rest \<Rightarrow> w @ concat (map (\<lambda>x. CHR '' '' # x) rest))"

fun render :: "(string \<times> string) list \<Rightarrow> run_context \<Rightarrow> step_outputs \<Rightarrow> (string \<times> string) list \<Rightarrow>
    frag \<Rightarrow> string" where
  "render env c outs vars (Lit s) = s"
| "render env c outs vars (Ex e) = to_string (eval env c outs e)"
| "render env c outs vars (Var v) = lookup vars v"
| "render env c outs vars (Subst ws) =
     shell c (join (map (\<lambda>w. concat (map (render env c outs vars) w)) ws))"

definition render_word :: "(string \<times> string) list \<Rightarrow> run_context \<Rightarrow> step_outputs \<Rightarrow>
    (string \<times> string) list \<Rightarrow> word \<Rightarrow> string" where
  "render_word env c outs vars w = concat (map (render env c outs vars) w)"

text \<open>
  The commands the workflow's scripts are made of: a command line, the workflow command
  \<open>echo ::set-output name=N::V\<close> (in its older spelling \<open>echo "##[set-output name=N;]V"\<close>)
  that sets output \<open>N\<close> of the step to \<open>V\<close>, an assignment \<open>name=V\<close>, and the conditional
  \<open>if [[ A == B ]]; then ... else ... fi\<close>.
\<close>

datatype shell_command =
    Exec "word list"
  | SetOutput string word
  | Assign string word
  | IfEq word word "shell_command list" "shell_command list"

datatype action =
    Uses string "(string \<times> word) list"
  | Run "shell_command list"

record step =
  step_name :: string
  step_id :: "string option"
  step_if :: "gh_expr option"
  step_action :: action

datatype event =
    Executed string "string list"
  | Invoked string string "(string \<times> string) list"
  | MarkedFailed string string

record job_state =
  outputs :: step_outputs
  events :: "event list"

record shell_state =
  vars :: "(string \<times> string) list"
  announced :: "(string \<times> string) list"
  executed :: "string list list"

fun exec_command :: "(string \<times> string) list \<Rightarrow> run_context \<Rightarrow> step_outputs \<Rightarrow>
    shell_command \<Rightarrow> shell_state \<Rightarrow> shell_state"
and exec_commands :: "(string \<times> string) list \<Rightarrow> run_context \<Rightarrow> step_outputs \<Rightarrow>
    shell_command list \<Rightarrow> shell_state \<Rightarrow> shell_state" where
  "exec_command env c outs (Exec ws) sh =
     sh\<lparr>executed := executed sh @ [map (render_word env c outs (vars sh)) ws]\<rparr>"
| "exec_command env c outs (SetOutput n w) sh =
     sh\<lparr>announced := (n, render_word env c outs (vars sh) w) # announced sh\<rparr>"
| "exec_command env c outs (Assign v w) sh =
     sh\<lparr>vars := (v, render_word env c outs (vars sh) w) # vars sh\<rparr>"
| "exec_command env c outs (IfEq a b yes no) sh =
     (if render_word env c outs (vars sh) a = render_word env c outs (vars sh) b
      then exec_commands env c outs yes sh else exec_commands env c outs no sh)"
| "exec_commands env c outs [] sh = sh"
| "exec_commands env c outs (x # xs) sh =
     exec_commands env c outs xs (exec_command env c outs x sh)"

text \<open>
  The script of \<open>actions/github-script\<close> in this workflow is one call
  \<open>core.setFailed('message')\<close>, which marks the run as failed.
\<close>

definition strip_prefix :: "string \<Rightarrow> string \<Rightarrow> string option" where
  "strip_prefix p s = (if prefix p s then Some (drop (length p) s) else None)"

definition strip_suffix :: "string \<Rightarrow> string \<Rightarrow> string option" where
  "strip_suffix p s = (if suffix p s then Some (take (length s - length p) s) else None)"

definition set_failed_message :: "string \<Rightarrow> string option" where
  \<open>set_failed_message script =
     (case strip_prefix ''core.setFailed('' script of
        None \<Rightarrow> None
      | Some rest \<Rightarrow>
          (case strip_prefix [CHR 0x27] rest of
             None \<Rightarrow> None
           | Some r \<Rightarrow> strip_suffix [CHR 0x27, CHR '')''] r))\<close>

definition is_github_script :: "string \<Rightarrow> bool" where
  "is_github_script a = prefix ''actions/github-script@'' a"

definition selected :: "(string \<times> string) list \<Rightarrow> run_context \<Rightarrow> step_outputs \<Rightarrow> step \<Rightarrow> bool" where
  "selected env c outs s =
     (case step_if s of None \<Rightarrow> True | Some e \<Rightarrow> truthy (eval env c outs e))"

definition store_outputs :: "string option \<Rightarrow> (string \<times> string) list \<Rightarrow> step_outputs \<Rightarrow> step_outputs" where
  "store_outputs i kvs outs =
     (case i of None \<Rightarrow> outs | Some sid \<Rightarrow> map (\<lambda>(n, v). ((sid, n), v)) kvs @ outs)"

definition exec_step :: "(string \<times> string) list \<Rightarrow> run_context \<Rightarrow> job_state \<Rightarrow> step \<Rightarrow> job_state" where
  "exec_step env c st s =
     (if \<not> selected env c (outputs st) s then st
      else case step_action s of
        Run cmds \<Rightarrow>
          (let sh = exec_commands env c (outputs st) cmds
                      \<lparr>vars = [], announced = [], executed = []\<rparr>
           in \<lparr>outputs = store_outputs (step_id s) (announced sh) (outputs st),
               events = events st @ map (Executed (step_name s)) (executed sh)\<rparr>)
      | Uses a params \<Rightarrow>
          (let ps = map (\<lambda>(k, w). (k, render_word env c (outputs st) [] w)) params
           in st\<lparr>events := events st @ [Invoked (step_name s) a ps] @
                (if is_github_script a
                 then (case set_failed_message (lookup ps ''script'') of
                         None \<Rightarrow> [] | Some m \<Rightarrow> [MarkedFailed (step_name s) m])
                 else [])\<rparr>))"

definition run_job :: "(string \<times> string) list \<Rightarrow> run_context \<Rightarrow> step list \<Rightarrow> job_state" where
  "run_job env c steps = foldl (exec_step env c) \<lparr>outputs = [], events = []\<rparr> steps"

subsection \<open>The reusable workflow azureml-tests\<close>

text \<open>
  The \<open>env\<close> block of the workflow:
  \<^verbatim>\<open>
  env:
    CPU_CLUSTER_NAME: "cpu-cluster"
    GPU_CLUSTER_NAME: "gpu-cluster"
    RG: "recommenders_project_resources"
    WS: "azureml-test-workspace"
    TEST_LOGS_PATH: '"test_logs.log"'
    PYTEST_EXIT_CODE: "pytest_exit_code.log"
  \<close>
\<close>

definition azureml_tests_env :: "(string \<times> string) list" where
  \<open>azureml_tests_env =
     [(''CPU_CLUSTER_NAME'', ''cpu-cluster''),
      (''GPU_CLUSTER_NAME'', ''gpu-cluster''),
      (''RG'', ''recommenders_project_resources''),
      (''WS'', ''azureml-test-workspace''),
      (''TEST_LOGS_PATH'', ''"test_logs.log"''),
      (''PYTEST_EXIT_CODE'', ''pytest_exit_code.log'')]\<close>

text \<open>The job \<open>get-test-groups\<close>: two steps, the second a script with a conditional.\<close>

definition checkout_step :: step where
  "checkout_step =
     \<lparr>step_name = ''Check out repository code'', step_id = None, step_if = None,
      step_action = Uses ''actions/checkout@v2'' []\<rparr>"

definition get_test_groups_step :: step where
  \<open>get_test_groups_step =
     \<lparr>step_name = ''Get test group names'', step_id = Some ''get_test_groups'', step_if = None,
      step_action = Run
        [IfEq [Ex (Input ''TEST_KIND'')] [Lit ''nightly'']
           [Assign ''test_groups_str''
              [Subst [[Lit ''python''], [Lit ''-c''],
                 [Lit (CHR 0x27 # ''from tests.ci.azureml_tests.test_groups import nightly_test_groups; print([t for t in nightly_test_groups.keys() if "''),
                  Ex (Input ''TEST_ENV''),
                  Lit (''" in t])'' @ [CHR 0x27])]]]]
           [Assign ''test_groups_str''
              [Subst [[Lit ''python''], [Lit ''-c''],
                 [Lit (CHR 0x27 # ''from tests.ci.azureml_tests.test_groups import unit_test_groups; print(list(unit_test_groups.keys()))'' @ [CHR 0x27])]]]],
         SetOutput ''test_groups'' [Var ''test_groups_str'']]\<rparr>\<close>

definition get_test_groups_steps :: "step list" where
  "get_test_groups_steps = [checkout_step, get_test_groups_step]"

text \<open>
  The job \<open>execute-tests\<close>, run once for every entry of its matrix (a Python version and
  a test group, which the steps read as \<open>matrix.python-version\<close> and \<open>matrix.test-group\<close>).
  The key \<open>shell: bash\<close> of the step \<open>Extract branch name\<close> names the shell that runs
  its script and has no field in the model.
\<close>

definition setup_python_step :: step where
  "setup_python_step =
     \<lparr>step_name = ''Setup python'', step_id = None, step_if = None,
      step_action = Uses ''actions/setup-python@v2'' [(''python-version'', [Lit ''3.8''])]\<rparr>"

definition install_azureml_step :: step where
  "install_azureml_step =
     \<lparr>step_name = ''Install azureml-core and azure-cli on a GitHub hosted server'',
      step_id = None, step_if = None,
      step_action = Run [Exec [[Lit ''pip''], [Lit ''install''], [Lit ''azureml-core''], [Lit ''azure-cli'']]]\<rparr>"

definition login_step :: step where
  "login_step =
     \<lparr>step_name = ''Log in to Azure'', step_id = None, step_if = None,
      step_action = Uses ''azure/login@v1'' [(''creds'', [Ex (Secret ''AZUREML_TEST_CREDENTIALS'')])]\<rparr>"

definition install_wheel_step :: step where
  "install_wheel_step =
     \<lparr>step_name = ''Install wheel package'', step_id = None, step_if = None,
      step_action = Run [Exec [[Lit ''pip''], [Lit ''install''], [Lit ''wheel'']]]\<rparr>"

definition create_wheel_step :: step where
  "create_wheel_step =
     \<lparr>step_name = ''Create wheel from setup.py'', step_id = None, step_if = None,
      step_action = Run [Exec [[Lit ''python''], [Lit ''setup.py''], [Lit ''bdist_wheel'']]]\<rparr>"

definition extract_branch_step :: step where
  \<open>extract_branch_step =
     \<lparr>step_name = ''Extract branch name'', step_id = Some ''extract_branch'', step_if = None,
      step_action = Run
        [SetOutput ''branch'' [Subst [[Lit ''echo''], [Lit ''${GITHUB_REF#refs/heads/}'']]]]\<rparr>\<close>

definition submit_script :: string where
  "submit_script = ''tests/ci/azureml_tests/submit_groupwise_azureml_pytest.py''"

definition submit_cpu_step :: step where
  \<open>submit_cpu_step =
     \<lparr>step_name = ''Submit CPU tests to AzureML'', step_id = None,
      step_if = Some (Contains (Matrix ''test-group'') (StrLit ''cpu'')),
      step_action = Run
        [Exec [[Lit ''python''], [Lit submit_script],
           [Lit ''--clustername''], [Ex (Env ''CPU_CLUSTER_NAME'')],
           [Lit ''--subid''], [Ex (Secret ''AZUREML_TEST_SUBID'')],
           [Lit ''--reponame''], [Lit ''"recommenders"''],
           [Lit ''--branch''], [Ex (StepOutput ''extract_branch'' ''branch'')],
           [Lit ''--rg''], [Ex (Env ''RG'')],
           [Lit ''--wsname''], [Ex (Env ''WS'')],
           [Lit ''--expname''], [Ex (Input ''EXP_NAME''), Lit ''_'', Ex (Matrix ''test-group'')],
           [Lit ''--testlogs''], [Ex (Env ''TEST_LOGS_PATH'')],
           [Lit ''--testkind''], [Ex (Input ''TEST_KIND'')],
           [Lit ''--conda_pkg_python''], [Ex (Matrix ''python-version'')],
           [Lit ''--testgroup''], [Ex (Matrix ''test-group'')]]]\<rparr>\<close>

definition submit_gpu_step :: step where
  \<open>submit_gpu_step =
     \<lparr>step_name = ''Submit GPU tests to AzureML'', step_id = None,
      step_if = Some (Contains (Matrix ''test-group'') (StrLit ''gpu'')),
      step_action = Run
        [Exec [[Lit ''python''], [Lit submit_script],
           [Lit ''--clustername''], [Ex (Env ''GPU_CLUSTER_NAME'')],
           [Lit ''--subid''], [Ex (Secret ''AZUREML_TEST_SUBID'')],
           [Lit ''--reponame''], [Lit ''"recommenders"''],
           [Lit ''--branch''], [Ex (StepOutput ''extract_branch'' ''branch'')],
           [Lit ''--rg''], [Ex (Env ''RG'')],
           [Lit ''--wsname''], [Ex (Env ''WS'')],
           [Lit ''--expname''], [Ex (Input ''EXP_NAME''), Lit ''_'', Ex (Matrix ''test-group'')],
           [Lit ''--testlogs''], [Ex (Env ''TEST_LOGS_PATH'')],
           [Lit ''--add_gpu_dependencies''],
           [Lit ''--testkind''], [Ex (Input ''TEST_KIND'')],
           [Lit ''--conda_pkg_python''], [Ex (Matrix ''python-version'')],
           [Lit ''--testgroup''], [Ex (Matrix ''test-group'')]]]\<rparr>\<close>

definition submit_spark_step :: step where
  \<open>submit_spark_step =
     \<lparr>step_name = ''Submit PySpark tests to AzureML'', step_id = None,
      step_if = Some (Contains (Matrix ''test-group'') (StrLit ''spark'')),
      step_action = Run
        [Exec [[Lit ''python''], [Lit submit_script],
           [Lit ''--clustername''], [Ex (Env ''CPU_CLUSTER_NAME'')],
           [Lit ''--subid''], [Ex (Secret ''AZUREML_TEST_SUBID'')],
           [Lit ''--reponame''], [Lit ''"recommenders"''],
           [Lit ''--branch''], [Ex (StepOutput ''extract_branch'' ''branch'')],
           [Lit ''--rg''], [Ex (Env ''RG'')],
           [Lit ''--wsname''], [Ex (Env ''WS'')],
           [Lit ''--expname''], [Ex (Input ''EXP_NAME''), Lit ''_'', Ex (Matrix ''test-group'')],
           [Lit ''--testlogs''], [Ex (Env ''TEST_LOGS_PATH'')],
           [Lit ''--add_spark_dependencies''],
           [Lit ''--testkind''], [Ex (Input ''TEST_KIND'')],
           [Lit ''--conda_pkg_python''], [Ex (Matrix ''python-version'')],
           [Lit ''--testgroup''], [Ex (Matrix ''test-group'')]]]\<rparr>\<close>

definition print_logs_step :: step where
  "print_logs_step =
     \<lparr>step_name = ''Print test logs'', step_id = None, step_if = None,
      step_action = Run [Exec [[Lit ''cat''], [Ex (Env ''TEST_LOGS_PATH'')]]]\<rparr>"

definition exit_status_step :: step where
  "exit_status_step =
     \<lparr>step_name = ''Get exit status'', step_id = Some ''exit_status'', step_if = None,
      step_action = Run
        [SetOutput ''code'' [Subst [[Lit ''cat''], [Ex (Env ''PYTEST_EXIT_CODE'')]]]]\<rparr>"

definition check_step :: step where
  \<open>check_step =
     \<lparr>step_name = ''Check Success/Failure'', step_id = None,
      step_if = Some (NotEqual (StepOutput ''exit_status'' ''code'') (NumLit 0)),
      step_action = Uses ''actions/github-script@v3''
        [(''script'', [Lit ''core.setFailed('All tests did not pass!')''])]\<rparr>\<close>

definition execute_tests_steps :: "step list" where
  "execute_tests_steps =
     [checkout_step, setup_python_step, install_azureml_step, login_step, install_wheel_step,
      create_wheel_step, extract_branch_step, submit_cpu_step, submit_gpu_step,
      submit_spark_step, print_logs_step, exit_status_step, check_step]"

subsection \<open>The workflow azureml-gpu-nightly\<close>








subsection \<open>Observations on steps and runs\<close>

fun command_lines :: "shell_command list \<Rightarrow> word list list" where
  "command_lines [] = []"
| "command_lines (Exec ws # rest) = ws # command_lines rest"
| "command_lines (IfEq a b yes no # rest) = command_lines yes @ command_lines no @ command_lines rest"
| "command_lines (x # rest) = command_lines rest"

definition step_command_lines :: "step \<Rightarrow> word list list" where
  "step_command_lines s = (case step_action s of Run cmds \<Rightarrow> command_lines cmds | Uses a ps \<Rightarrow> [])"

text \<open>A test-submission step runs the submission script with \<open>python\<close>.\<close>

definition is_submission :: "step \<Rightarrow> bool" where
  "is_submission s =
     list_ex (\<lambda>ws. take 2 ws = [[Lit ''python''], [Lit submit_script]]) (step_command_lines s)"

fun word_after :: "word \<Rightarrow> word list \<Rightarrow> word option" where
  "word_after f (w # v # rest) = (if w = f then Some v else word_after f (v # rest))"
| "word_after f ws = None"

text \<open>The value a step's command line gives to an option such as \<open>--clustername\<close>.\<close>

definition parameter :: "(string \<times> string) list \<Rightarrow> run_context \<Rightarrow> step_outputs \<Rightarrow> step \<Rightarrow>
    string \<Rightarrow> string option" where
  "parameter env c outs s opt =
     (case step_command_lines s of
        [] \<Rightarrow> None
      | ws # rest \<Rightarrow> map_option (render_word env c outs []) (word_after [Lit opt] ws))"

definition has_flag :: "step \<Rightarrow> string \<Rightarrow> bool" where
  "has_flag s opt = list_ex (\<lambda>ws. [Lit opt] \<in> set ws) (step_command_lines s)"

text \<open>
  Explicit failure handling: a script step that calls \<open>setFailed\<close>, or a shell script with an
  \<open>exit\<close> command. (No step of the workflow has a status function in its \<open>if\<close> or a
  \<open>continue-on-error\<close> key.)
\<close>

fun mentions :: "string \<Rightarrow> frag \<Rightarrow> bool" where
  "mentions t (Lit s) = sublist t s"
| "mentions t f = False"

definition handles_failure :: "step \<Rightarrow> bool" where
  "handles_failure s =
     (case step_action s of
        Uses a ps \<Rightarrow> list_ex (\<lambda>(k, w). list_ex (mentions ''setFailed'') w) ps
      | Run cmds \<Rightarrow> list_ex (\<lambda>ws. take 1 ws = [[Lit ''exit'']]) (command_lines cmds))"

fun failure_message :: "event \<Rightarrow> string option" where
  "failure_message (MarkedFailed s m) = Some m"
| "failure_message e = None"

definition failures :: "job_state \<Rightarrow> string list" where
  "failures st = List.map_filter failure_message (events st)"

text \<open>The command line of a step's first command, as the run hands it to the shell.\<close>

definition command_line :: "(string \<times> string) list \<Rightarrow> run_context \<Rightarrow> step_outputs \<Rightarrow> step \<Rightarrow>
    string list" where
  "command_line env c outs s =
     (case step_command_lines s of
        [] \<Rightarrow> []
      | ws # rest \<Rightarrow> map (render_word env c outs []) ws)"

fun executed_command :: "event \<Rightarrow> (string \<times> string list) option" where
  "executed_command (Executed s ws) = Some (s, ws)"
| "executed_command e = None"

text \<open>
  The test submissions of a run, in order: the commands executed by test-submission steps,
  each with the name of its step.
\<close>

definition submissions :: "step list \<Rightarrow> job_state \<Rightarrow> (string \<times> string list) list" where
  "submissions steps st =
     filter (\<lambda>(n, ws). n \<in> set (map step_name (filter is_submission steps)))
       (List.map_filter executed_command (events st))"



text \<open>
  The context in which the file \<open>name\<close> holds \<open>content\<close>: the shell answers \<open>cat name\<close>
  with it.
\<close>

definition with_file :: "run_context \<Rightarrow> string \<Rightarrow> string \<Rightarrow> run_context" where
  "with_file c name content = c\<lparr>shell := (shell c)((''cat '' @ name) := content)\<rparr>"

text \<open>An example of a run context, for the matrix entry of the test group \<open>g\<close>.\<close>

definition example_context :: "string \<Rightarrow> run_context" where
  "example_context g =
     \<lparr>secrets = (\<lambda>n. ''0000''),
      inputs = (\<lambda>n. if n = ''EXP_NAME'' then ''nightly_tests'' else ''nightly''),
      matrix = (\<lambda>n. if n = ''test-group'' then g else ''3.8''),
      shell = (\<lambda>cmd. ''staging''),
      github = (\<lambda>n. if n = ''ref'' then ''refs/heads/staging'' else ''0a1b2c3'')\<rparr>"

section \<open>The notebook cornac_bpr_deep_dive\<close>

text \<open>
  The code cells of the notebook are a straight-line Python script: imports, assignments,
  calls and two \<open>with\<close> blocks. Everything it calls is outside the repository sample
  (Cornac, pandas, the \<open>recommenders\<close> package), so the model keeps the script as syntax and
  runs it symbolically: a call of an outside function is recorded, with the values of its
  arguments, and its result is the value \<open>ReturnedV i\<close>, where \<open>i\<close> is the position of the
  call in the run.
\<close>

subsection \<open>Syntax\<close>

text \<open>
  \<open>PyFloat m d\<close> is the decimal literal \<open>m / 10^d\<close> as written in the source: \<open>0.75\<close> is
  \<open>PyFloat 75 2\<close>. An f-string is the list of its parts, literal text and replacement
  fields; \<open>PyField e spec\<close> is the field \<open>{e:spec}\<close>.
\<close>

datatype py_expr =
    PyName string
  | PyInt int
  | PyFloat int nat
  | PyBool bool
  | PyStr string
  | PyList "py_expr list"
  | PyFString "py_expr list"
  | PyField py_expr string
  | PyAttr py_expr string
  | PyCall py_expr "py_expr list" "(string \<times> py_expr) list"

datatype py_stmt =
    PyImport string
  | PyFromImport string "string list"
  | PyAssign "string list" py_expr
  | PyExpr py_expr
  | PyWith py_expr string "py_stmt list"

subsection \<open>Values, calls and the state of a run\<close>

datatype py_value =
    IntV int
  | FloatV int nat
  | BoolV bool
  | StrV string
  | ListV "py_value list"
  | FStringV "py_value list"
  | FieldV py_value string
  | ModuleV string
  | ImportedV string string
  | BuiltinV string
  | AttrV py_value string
  | ReturnedV nat
  | ItemV py_value nat
  | EnteredV py_value

datatype py_error = NameError string

record py_call =
  call_fun :: py_value
  call_args :: "py_value list"
  call_kwargs :: "(string \<times> py_value) list"

record py_state =
  globals :: "(string \<times> py_value) list"
  calls :: "py_call list"

text \<open>
  A name is looked up among the globals first and the builtins second, so the imported
  \<open>map\<close> hides the builtin of that name. A name that is neither raises \<open>NameError\<close>.
  Of Python's builtins the list holds the two whose names occur in the notebook.
\<close>

definition builtins :: "string list" where
  "builtins = [''print'', ''map'']"

definition lookup_name :: "py_state \<Rightarrow> string \<Rightarrow> py_error + py_value" where
  "lookup_name st x =
     (case map_of (globals st) x of
        Some v \<Rightarrow> Inr v
      | None \<Rightarrow> if x \<in> set builtins then Inr (BuiltinV x) else Inl (NameError x))"

text \<open>
  Evaluation goes left to right: the callee, the positional arguments, the keyword
  arguments; then the call is recorded.
\<close>

fun eval_expr :: "py_state \<Rightarrow> py_expr \<Rightarrow> py_error + (py_value \<times> py_state)"
and eval_exprs :: "py_state \<Rightarrow> py_expr list \<Rightarrow> py_error + (py_value list \<times> py_state)"
and eval_kwargs :: "py_state \<Rightarrow> (string \<times> py_expr) list \<Rightarrow>
      py_error + ((string \<times> py_value) list \<times> py_state)" where
  "eval_expr st (PyName x) =
     (case lookup_name st x of Inl e \<Rightarrow> Inl e | Inr v \<Rightarrow> Inr (v, st))"
| "eval_expr st (PyInt n) = Inr (IntV n, st)"
| "eval_expr st (PyFloat m d) = Inr (FloatV m d, st)"
| "eval_expr st (PyBool b) = Inr (BoolV b, st)"
| "eval_expr st (PyStr s) = Inr (StrV s, st)"
| "eval_expr st (PyList es) =
     (case eval_exprs st es of Inl e \<Rightarrow> Inl e | Inr (vs, st') \<Rightarrow> Inr (ListV vs, st'))"
| "eval_expr st (PyFString es) =
     (case eval_exprs st es of Inl e \<Rightarrow> Inl e | Inr (vs, st') \<Rightarrow> Inr (FStringV vs, st'))"
| "eval_expr st (PyField e spec) =
     (case eval_expr st e of Inl err \<Rightarrow> Inl err | Inr (v, st') \<Rightarrow> Inr (FieldV v spec, st'))"
| "eval_expr st (PyAttr e a) =
     (case eval_expr st e of Inl err \<Rightarrow> Inl err | Inr (v, st') \<Rightarrow> Inr (AttrV v a, st'))"
| "eval_expr st (PyCall f args kws) =
     (case eval_expr st f of
        Inl err \<Rightarrow> Inl err
      | Inr (fv, st1) \<Rightarrow>
          (case eval_exprs st1 args of
             Inl err \<Rightarrow> Inl err
           | Inr (avs, st2) \<Rightarrow>
               (case eval_kwargs st2 kws of
                  Inl err \<Rightarrow> Inl err
                | Inr (kvs, st3) \<Rightarrow>
                    Inr (ReturnedV (length (calls st3)),
                         st3\<lparr>calls := calls st3 @
                            [\<lparr>call_fun = fv, call_args = avs, call_kwargs = kvs\<rparr>]\<rparr>))))"
| "eval_exprs st [] = Inr ([], st)"
| "eval_exprs st (e # es) =
     (case eval_expr st e of
        Inl err \<Rightarrow> Inl err
      | Inr (v, st1) \<Rightarrow>
          (case eval_exprs st1 es of Inl err \<Rightarrow> Inl err | Inr (vs, st2) \<Rightarrow> Inr (v # vs, st2)))"
| "eval_kwargs st [] = Inr ([], st)"
| "eval_kwargs st ((k, e) # kws) =
     (case eval_expr st e of
        Inl err \<Rightarrow> Inl err
      | Inr (v, st1) \<Rightarrow>
          (case eval_kwargs st1 kws of
             Inl err \<Rightarrow> Inl err
           | Inr (kvs, st2) \<Rightarrow> Inr ((k, v) # kvs, st2)))"

subsection \<open>Statements\<close>

text \<open>
  An assignment to several targets unpacks the value: target \<open>i\<close> receives component \<open>i\<close>.
  \<open>with e as x\<close> binds \<open>x\<close> to what entering the context manager returns.
\<close>

definition bind_name :: "string \<Rightarrow> py_value \<Rightarrow> py_state \<Rightarrow> py_state" where
  "bind_name x v st = st\<lparr>globals := (x, v) # globals st\<rparr>"

fun bind_targets :: "string list \<Rightarrow> py_value \<Rightarrow> py_state \<Rightarrow> py_state" where
  "bind_targets [x] v st = bind_name x v st"
| "bind_targets xs v st = foldl (\<lambda>s (i, x). bind_name x (ItemV v i) s) st (enumerate 0 xs)"

fun exec_stmt :: "py_state \<Rightarrow> py_stmt \<Rightarrow> py_error + py_state"
and exec_stmts :: "py_state \<Rightarrow> py_stmt list \<Rightarrow> py_error + py_state" where
  "exec_stmt st (PyImport m) = Inr (bind_name m (ModuleV m) st)"
| "exec_stmt st (PyFromImport m xs) = Inr (foldl (\<lambda>s x. bind_name x (ImportedV m x) s) st xs)"
| "exec_stmt st (PyAssign xs e) =
     (case eval_expr st e of Inl err \<Rightarrow> Inl err | Inr (v, st') \<Rightarrow> Inr (bind_targets xs v st'))"
| "exec_stmt st (PyExpr e) =
     (case eval_expr st e of Inl err \<Rightarrow> Inl err | Inr (v, st') \<Rightarrow> Inr st')"
| "exec_stmt st (PyWith e x body) =
     (case eval_expr st e of
        Inl err \<Rightarrow> Inl err
      | Inr (v, st') \<Rightarrow> exec_stmts (bind_name x (EnteredV v) st') body)"
| "exec_stmts st [] = Inr st"
| "exec_stmts st (s # ss) =
     (case exec_stmt st s of Inl err \<Rightarrow> Inl err | Inr st' \<Rightarrow> exec_stmts st' ss)"

text \<open>A run executes the cells in order, from an empty state.\<close>

definition run :: "py_stmt list list \<Rightarrow> py_error + py_state" where
  "run cells = exec_stmts \<lparr>globals = [], calls = []\<rparr> (concat cells)"

subsection \<open>The code cells\<close>

text \<open>
  \<^verbatim>\<open>
  import sys
  import cornac

  from recommenders.datasets import movielens
  from recommenders.datasets.python_splitters import python_random_split
  from recommenders.evaluation.python_evaluation import map, ndcg_at_k, precision_at_k, recall_at_k
  from recommenders.models.cornac.bpr import BPR
  from recommenders.utils.timer import Timer
  from recommenders.utils.constants import SEED
  from recommenders.utils.notebook_utils import store_metadata

  print(f"System version: {sys.version}")
  print(f"Cornac version: {cornac.__version__}")
  \<close>
\<close>

definition cell_imports :: "py_stmt list" where
  "cell_imports =
     [PyImport ''sys'',
      PyImport ''cornac'',
      PyFromImport ''recommenders.datasets'' [''movielens''],
      PyFromImport ''recommenders.datasets.python_splitters'' [''python_random_split''],
      PyFromImport ''recommenders.evaluation.python_evaluation''
        [''map'', ''ndcg_at_k'', ''precision_at_k'', ''recall_at_k''],
      PyFromImport ''recommenders.models.cornac.bpr'' [''BPR''],
      PyFromImport ''recommenders.utils.timer'' [''Timer''],
      PyFromImport ''recommenders.utils.constants'' [''SEED''],
      PyFromImport ''recommenders.utils.notebook_utils'' [''store_metadata''],
      PyExpr (PyCall (PyName ''print'')
        [PyFString [PyStr ''System version: '', PyField (PyAttr (PyName ''sys'') ''version'') []]] []),
      PyExpr (PyCall (PyName ''print'')
        [PyFString [PyStr ''Cornac version: '',
           PyField (PyAttr (PyName ''cornac'') ''__version__'') []]] [])]"

text \<open>
  \<^verbatim>\<open>
  MOVIELENS_DATA_SIZE = "100k"
  TOP_K = 10
  NUM_FACTORS = 200
  NUM_EPOCHS = 100
  \<close>
\<close>

definition cell_parameters :: "py_stmt list" where
  "cell_parameters =
     [PyAssign [''MOVIELENS_DATA_SIZE''] (PyStr ''100k''),
      PyAssign [''TOP_K''] (PyInt 10),
      PyAssign [''NUM_FACTORS''] (PyInt 200),
      PyAssign [''NUM_EPOCHS''] (PyInt 100)]"

text \<open>
  \<^verbatim>\<open>
  data = movielens.load_pandas_df(
      size=MOVIELENS_DATA_SIZE,
      header=["userID", "itemID", "rating"]
  )

  data.head()
  \<close>
\<close>

definition cell_load :: "py_stmt list" where
  "cell_load =
     [PyAssign [''data'']
        (PyCall (PyAttr (PyName ''movielens'') ''load_pandas_df'') []
           [(''size'', PyName ''MOVIELENS_DATA_SIZE''),
            (''header'', PyList [PyStr ''userID'', PyStr ''itemID'', PyStr ''rating''])]),
      PyExpr (PyCall (PyAttr (PyName ''data'') ''head'') [] [])]"

text \<open>
  \<^verbatim>\<open>
  train, test = python_random_split(data, 0.75)
  \<close>
\<close>

definition cell_split :: "py_stmt list" where
  "cell_split =
     [PyAssign [''train'', ''test'']
        (PyCall (PyName ''python_random_split'') [PyName ''data'', PyFloat 75 2] [])]"

text \<open>
  \<^verbatim>\<open>
  train_set = cornac.data.Dataset.from_uir(train.itertuples(index=False), seed=SEED)

  print('Number of users: {}'.format(train_set.num_users))
  print('Number of items: {}'.format(train_set.num_items))
  \<close>
\<close>

definition cell_dataset :: "py_stmt list" where
  "cell_dataset =
     [PyAssign [''train_set'']
        (PyCall (PyAttr (PyAttr (PyAttr (PyName ''cornac'') ''data'') ''Dataset'') ''from_uir'')
           [PyCall (PyAttr (PyName ''train'') ''itertuples'') [] [(''index'', PyBool False)]]
           [(''seed'', PyName ''SEED'')]),
      PyExpr (PyCall (PyName ''print'')
        [PyCall (PyAttr (PyStr ''Number of users: {}'') ''format'')
           [PyAttr (PyName ''train_set'') ''num_users''] []] []),
      PyExpr (PyCall (PyName ''print'')
        [PyCall (PyAttr (PyStr ''Number of items: {}'') ''format'')
           [PyAttr (PyName ''train_set'') ''num_items''] []] [])]"

text \<open>
  \<^verbatim>\<open>
  bpr = BPR(
      k=NUM_FACTORS,
      max_iter=NUM_EPOCHS,
      learning_rate=0.01,
      lambda_reg=0.001,
      verbose=True,
      seed=SEED
  )
  \<close>
\<close>

definition cell_model :: "py_stmt list" where
  "cell_model =
     [PyAssign [''bpr'']
        (PyCall (PyName ''BPR'') []
           [(''k'', PyName ''NUM_FACTORS''),
            (''max_iter'', PyName ''NUM_EPOCHS''),
            (''learning_rate'', PyFloat 1 2),
            (''lambda_reg'', PyFloat 1 3),
            (''verbose'', PyBool True),
            (''seed'', PyName ''SEED'')])]"

text \<open>
  \<^verbatim>\<open>
  with Timer() as t:
      bpr.fit(train_set)
  print(f"Took {t} seconds for training.")
  \<close>
\<close>

definition cell_fit :: "py_stmt list" where
  "cell_fit =
     [PyWith (PyCall (PyName ''Timer'') [] []) ''t''
        [PyExpr (PyCall (PyAttr (PyName ''bpr'') ''fit'') [PyName ''train_set''] [])],
      PyExpr (PyCall (PyName ''print'')
        [PyFString [PyStr ''Took '', PyField (PyName ''t'') [],
           PyStr '' seconds for training.'']] [])]"

text \<open>
  \<^verbatim>\<open>
  with Timer() as t:
      all_predictions = bpr.recommend_k_items(train, col_user='userID', col_item='itemID', remove_seen=True)
  print(f"Took {t} seconds for prediction.")
  \<close>
\<close>

definition cell_predict :: "py_stmt list" where
  "cell_predict =
     [PyWith (PyCall (PyName ''Timer'') [] []) ''t''
        [PyAssign [''all_predictions'']
           (PyCall (PyAttr (PyName ''bpr'') ''recommend_k_items'') [PyName ''train'']
              [(''col_user'', PyStr ''userID''),
               (''col_item'', PyStr ''itemID''),
               (''remove_seen'', PyBool True)])],
      PyExpr (PyCall (PyName ''print'')
        [PyFString [PyStr ''Took '', PyField (PyName ''t'') [],
           PyStr '' seconds for prediction.'']] [])]"

text \<open>
  \<^verbatim>\<open>
  all_predictions.head()
  \<close>
\<close>

definition cell_head :: "py_stmt list" where
  "cell_head = [PyExpr (PyCall (PyAttr (PyName ''all_predictions'') ''head'') [] [])]"

text \<open>
  \<^verbatim>\<open>
  eval_map = map(test, all_predictions, col_prediction='prediction', k=TOP_K)
  eval_ndcg = ndcg_at_k(test, all_predictions, col_prediction='prediction', k=TOP_K)
  eval_precision = precision_at_k(test, all_predictions, col_prediction='prediction', k=TOP_K)
  eval_recall = recall_at_k(test, all_predictions, col_prediction='prediction', k=TOP_K)

  print(f"Model:",
        f"Top K:\t\t {TOP_K}",
        f"MAP:\t\t {eval_map:f}",
        f"NDCG:\t\t {eval_ndcg:f}",
        f"Precision@K:\t {eval_precision:f}",
        f"Recall@K:\t {eval_recall:f}", sep="\n")
  \<close>
\<close>

definition cell_evaluate :: "py_stmt list" where
  "cell_evaluate =
     [PyAssign [''eval_map'']
        (PyCall (PyName ''map'') [PyName ''test'', PyName ''all_predictions'']
           [(''col_prediction'', PyStr ''prediction''), (''k'', PyName ''TOP_K'')]),
      PyAssign [''eval_ndcg'']
        (PyCall (PyName ''ndcg_at_k'') [PyName ''test'', PyName ''all_predictions'']
           [(''col_prediction'', PyStr ''prediction''), (''k'', PyName ''TOP_K'')]),
      PyAssign [''eval_precision'']
        (PyCall (PyName ''precision_at_k'') [PyName ''test'', PyName ''all_predictions'']
           [(''col_prediction'', PyStr ''prediction''), (''k'', PyName ''TOP_K'')]),
      PyAssign [''eval_recall'']
        (PyCall (PyName ''recall_at_k'') [PyName ''test'', PyName ''all_predictions'']
           [(''col_prediction'', PyStr ''prediction''), (''k'', PyName ''TOP_K'')]),
      PyExpr (PyCall (PyName ''print'')
        [PyFString [PyStr ''Model:''],
         PyFString [PyStr (''Top K:'' @ [CHR 0x09, CHR 0x09] @ '' ''), PyField (PyName ''TOP_K'') []],
         PyFString [PyStr (''MAP:'' @ [CHR 0x09, CHR 0x09] @ '' ''),
           PyField (PyName ''eval_map'') ''f''],
         PyFString [PyStr (''NDCG:'' @ [CHR 0x09, CHR 0x09] @ '' ''),
           PyField (PyName ''eval_ndcg'') ''f''],
         PyFString [PyStr (''Precision@K:'' @ [CHR 0x09] @ '' ''),
           PyField (PyName ''eval_precision'') ''f''],
         PyFString [PyStr (''Recall@K:'' @ [CHR 0x09] @ '' ''),
           PyField (PyName ''eval_recall'') ''f'']]
        [(''sep'', PyStr [CHR 0x0A])])]"

text \<open>
  \<^verbatim>\<open>
  store_metadata("map", eval_map)
  store_metadata("ndcg", eval_ndcg)
  store_metadata("precision", eval_precision)
  store_metadata("recall", eval_recall)
  \<close>
\<close>

definition cell_record :: "py_stmt list" where
  "cell_record =
     [PyExpr (PyCall (PyName ''store_metadata'') [PyStr ''map'', PyName ''eval_map''] []),
      PyExpr (PyCall (PyName ''store_metadata'') [PyStr ''ndcg'', PyName ''eval_ndcg''] []),
      PyExpr (PyCall (PyName ''store_metadata'') [PyStr ''precision'', PyName ''eval_precision''] []),
      PyExpr (PyCall (PyName ''store_metadata'') [PyStr ''recall'', PyName ''eval_recall''] [])]"

definition notebook :: "py_stmt list list" where
  "notebook =
     [cell_imports, cell_parameters, cell_load, cell_split, cell_dataset, cell_model, cell_fit,
      cell_predict, cell_head, cell_evaluate, cell_record]"

subsection \<open>Observations on a run of the notebook\<close>

definition calls_of :: "py_error + py_state \<Rightarrow> py_call list" where
  "calls_of r = (case r of Inl e \<Rightarrow> [] | Inr st \<Rightarrow> calls st)"

definition global_of :: "py_error + py_state \<Rightarrow> string \<Rightarrow> py_value option" where
  "global_of r x = (case r of Inl e \<Rightarrow> None | Inr st \<Rightarrow> map_of (globals st) x)"

definition calls_to :: "py_value \<Rightarrow> py_call list \<Rightarrow> py_call list" where
  "calls_to f cs = filter (\<lambda>c. call_fun c = f) cs"

fun callee_name :: "py_value \<Rightarrow> string" where
  "callee_name (ImportedV m n) = n"
| "callee_name (AttrV v a) = a"
| "callee_name (BuiltinV n) = n"
| "callee_name v = []"

text \<open>The calls whose results a value is made of, by their positions in the run.\<close>

fun refs :: "py_value \<Rightarrow> nat list" where
  "refs (ReturnedV i) = [i]"
| "refs (ItemV v k) = refs v"
| "refs (AttrV v a) = refs v"
| "refs (EnteredV v) = refs v"
| "refs (FieldV v spec) = refs v"
| "refs (ListV vs) = concat (map refs vs)"
| "refs (FStringV vs) = concat (map refs vs)"
| "refs v = []"

definition call_refs :: "py_call \<Rightarrow> nat list" where
  "call_refs c =
     remdups (refs (call_fun c) @ concat (map refs (call_args c)) @
       concat (map (\<lambda>(k, v). refs v) (call_kwargs c)))"

definition name_at :: "py_call list \<Rightarrow> nat \<Rightarrow> string" where
  "name_at cs i = (case drop i cs of [] \<Rightarrow> [] | c # rest \<Rightarrow> callee_name (call_fun c))"

text \<open>
  The stages of the pipeline are the calls of the functions that load, split, convert,
  construct, fit, predict, score and record; \<open>stage_calls\<close> gives them in the order of the
  run, each with its position among all the calls of the run.
\<close>

definition stage_names :: "string list" where
  "stage_names =
     [''load_pandas_df'', ''python_random_split'', ''itertuples'', ''from_uir'', ''BPR'', ''fit'',
      ''recommend_k_items'', ''map'', ''ndcg_at_k'', ''precision_at_k'', ''recall_at_k'',
      ''store_metadata'']"

definition stage_calls :: "py_call list \<Rightarrow> (nat \<times> py_call) list" where
  "stage_calls cs =
     filter (\<lambda>(i, c). callee_name (call_fun c) \<in> set stage_names) (enumerate 0 cs)"

text \<open>
  Every stage consumes results of earlier stages only: each call whose result it is made of
  comes before it in the run and is a stage itself.
\<close>

definition consumes_earlier :: "(nat \<times> py_call) list \<Rightarrow> bool" where
  "consumes_earlier stages =
     list_all (\<lambda>(i, c). list_all (\<lambda>j. j < i \<and> j \<in> set (map fst stages)) (call_refs c)) stages"

text \<open>
  Modelled from the spec: the result type of the evaluation functions \<open>map\<close>, \<open>ndcg_at_k\<close>,
  \<open>precision_at_k\<close> and \<open>recall_at_k\<close> of \<open>recommenders.evaluation.python_evaluation\<close>,
  a module that is not among the sources. The spec's evaluation surface: "functions
  accepting ground-truth and predicted tables plus a cutoff rank k, returning scalar metric
  values".
\<close>

datatype py_sort = Scalar | Unspecified

definition result_sort :: "py_value \<Rightarrow> py_sort" where
  "result_sort f =
     (if f \<in> set (map (ImportedV ''recommenders.evaluation.python_evaluation'')
          [''map'', ''ndcg_at_k'', ''precision_at_k'', ''recall_at_k''])
      then Scalar else Unspecified)"

section \<open>The triggers of the workflow azureml-gpu-nightly\<close>

text \<open>
  The \<open>on\<close> block of the workflow file:
  \<^verbatim>\<open>
  on:
    schedule:
      - cron: '0 0 */5 * *'  # running every 5 days at 12AM
    push:
      branches: [staging]
      paths:
        - examples/**
        - '!examples/**/*.md'
        - recommenders/**
        - '!recommenders/**/*.md'
        - tests/**
        - '!tests/**/*.md'
        - setup.py
    workflow_dispatch:
      inputs:
        tags:
          description: 'Tags to label this manual run (optional)'
          default: 'Manual trigger'
    workflow_call:
  \<close>
\<close>

record workflow_input =
  input_description :: string
  input_default :: "string option"
  input_required :: "bool option"

datatype trigger =
    Schedule "string list"
  | Push "string list" "string list"
  | WorkflowDispatch "(string \<times> workflow_input) list"
  | WorkflowCall "(string \<times> workflow_input) list"

definition gpu_nightly_on :: "trigger list" where
  "gpu_nightly_on =
     [Schedule [''0 0 */5 * *''],
      Push [''staging'']
        [''examples/**'', ''!examples/**/*.md'',
         ''recommenders/**'', ''!recommenders/**/*.md'',
         ''tests/**'', ''!tests/**/*.md'',
         ''setup.py''],
      WorkflowDispatch
        [(''tags'',
          \<lparr>input_description = ''Tags to label this manual run (optional)'',
           input_default = Some ''Manual trigger'',
           input_required = None\<rparr>)],
      WorkflowCall []]"

fun trigger_kind :: "trigger \<Rightarrow> string" where
  "trigger_kind (Schedule crons) = ''schedule''"
| "trigger_kind (Push branches paths) = ''push''"
| "trigger_kind (WorkflowDispatch ins) = ''workflow_dispatch''"
| "trigger_kind (WorkflowCall ins) = ''workflow_call''"

subsection \<open>Filter patterns\<close>

text \<open>
  The filter patterns of \<open>branches\<close> and \<open>paths\<close>: \<open>*\<close> matches any run of characters
  other than \<open>/\<close>, \<open>**\<close> matches any run of characters, and \<open>**/\<close> also matches no
  directory at all (so that \<open>docs/**/*.md\<close> matches \<open>docs/README.md\<close>). Every other
  character of the patterns of this workflow stands for itself.
\<close>

datatype glob_token = Star | DoubleStar | Ch char

fun tokens :: "string \<Rightarrow> glob_token list" where
  "tokens [] = []"
| "tokens [c] = (if c = CHR ''*'' then [Star] else [Ch c])"
| "tokens (c # d # rest) =
     (if c = CHR ''*'' \<and> d = CHR ''*'' then DoubleStar # tokens rest
      else if c = CHR ''*'' then Star # tokens (d # rest)
      else Ch c # tokens (d # rest))"

fun matches :: "glob_token list \<Rightarrow> string \<Rightarrow> bool" where
  "matches [] s = (s = [])"
| "matches (Ch c # ts) s = (case s of [] \<Rightarrow> False | d # ds \<Rightarrow> c = d \<and> matches ts ds)"
| "matches (Star # ts) s =
     (matches ts s \<or>
      (case s of [] \<Rightarrow> False | d # ds \<Rightarrow> d \<noteq> CHR ''/'' \<and> matches (Star # ts) ds))"
| "matches (DoubleStar # ts) s =
     (matches ts s \<or>
      (case ts of Ch c # ts' \<Rightarrow> c = CHR ''/'' \<and> matches ts' s | _ \<Rightarrow> False) \<or>
      (case s of [] \<Rightarrow> False | d # ds \<Rightarrow> matches (DoubleStar # ts) ds))"

definition glob :: "string \<Rightarrow> string \<Rightarrow> bool" where
  "glob pattern s = matches (tokens pattern) s"

text \<open>
  A path filter is read in order: a pattern that matches includes the path, a pattern with
  a leading \<open>!\<close> that matches excludes it again, and the last match decides. A push passes
  the filter when at least one changed file is included.
\<close>

definition path_step :: "string \<Rightarrow> bool \<Rightarrow> string \<Rightarrow> bool" where
  "path_step f included p =
     (case p of
        [] \<Rightarrow> included
      | c # q \<Rightarrow>
          if c = CHR ''!'' then (if glob q f then False else included)
          else (if glob p f then True else included))"

definition path_selected :: "string list \<Rightarrow> string \<Rightarrow> bool" where
  "path_selected paths f = foldl (path_step f) False paths"

subsection \<open>Events\<close>

datatype gh_event =
    CronTick string
  | PushEvent string "string list"
  | DispatchEvent "(string \<times> string) list"
  | CallEvent
  | OtherEvent string

text \<open>
  A schedule fires on its cron expressions, a push trigger on a push to a matching branch
  that changes a selected path, a manual dispatch when every required input is given, a
  workflow call when another workflow calls; no trigger fires on any other event.
\<close>

fun trigger_fires :: "trigger \<Rightarrow> gh_event \<Rightarrow> bool" where
  "trigger_fires (Schedule crons) (CronTick c) = (c \<in> set crons)"
| "trigger_fires (Push branches paths) (PushEvent b files) =
     (list_ex (\<lambda>p. glob p b) branches \<and> list_ex (path_selected paths) files)"
| "trigger_fires (WorkflowDispatch ins) (DispatchEvent given) =
     list_all (\<lambda>(n, i). if input_required i = Some True then n \<in> set (map fst given) else True) ins"
| "trigger_fires (WorkflowCall ins) CallEvent = True"
| "trigger_fires t e = False"

definition fires :: "trigger list \<Rightarrow> gh_event \<Rightarrow> bool" where
  "fires ts e = list_ex (\<lambda>t. trigger_fires t e) ts"

definition optional_inputs :: "trigger \<Rightarrow> string list" where
  "optional_inputs t =
     (case t of
        WorkflowDispatch ins \<Rightarrow> map fst (filter (\<lambda>(n, i). input_required i \<noteq> Some True) ins)
      | WorkflowCall ins \<Rightarrow> map fst (filter (\<lambda>(n, i). input_required i \<noteq> Some True) ins)
      | _ \<Rightarrow> [])"

section \<open>The random split of the interaction table\<close>


fun sample :: "nat \<Rightarrow> nat \<Rightarrow> nat list \<Rightarrow> nat list" where
  "sample rnd 0 rest = []"
| "sample rnd (Suc k) rest =
     (if rest = [] then []
      else (let i = rnd mod length rest
            in rest ! i # sample (rnd div length rest) k (take i rest @ drop (Suc i) rest)))"

text \<open>The order in which the \<open>n\<close> row positions of a table are drawn.\<close>

definition permutation :: "nat \<Rightarrow> nat \<Rightarrow> nat list" where
  "permutation rnd n = sample rnd n [0..<n]"





section \<open>Properties of the workflow azureml-tests\<close>

subsection \<open>Reading a decimal numeral back\<close>

lemma digits_value_append:
  "digits_value acc (xs @ ys) = Option.bind (digits_value acc xs) (\<lambda>a. digits_value a ys)"
  by (induction xs arbitrary: acc) auto

lemma is_digit_digit_char: "d < 10 \<Longrightarrow> is_digit (digit_char d)"
  by (simp add: is_digit_def digit_char_def)

lemma digit_val_digit_char: "d < 10 \<Longrightarrow> digit_val (digit_char d) = d"
  by (simp add: digit_val_def digit_char_def)

lemma digits_value_decimal: "digits_value 0 (decimal n) = Some n"
proof (induction n rule: decimal.induct)
  case (1 n)
  show ?case
  proof (cases "n < 10")
    case True
    then show ?thesis
      by (subst decimal.simps) (simp add: is_digit_digit_char digit_val_digit_char)
  next
    case False
    with 1 have ih: "digits_value 0 (decimal (n div 10)) = Some (n div 10)" by simp
    have m: "n mod 10 < 10" by simp
    show ?thesis
      using False ih
      by (subst decimal.simps)
         (simp add: digits_value_append is_digit_digit_char [OF m] digit_val_digit_char [OF m])
  qed
qed

lemma decimal_not_Nil: "decimal n \<noteq> []"
  by (subst decimal.simps) simp

lemma hd_decimal_digit: "is_digit (hd (decimal n))"
proof (induction n rule: decimal.induct)
  case (1 n)
  show ?case
  proof (cases "n < 10")
    case True
    then show ?thesis by (subst decimal.simps) (simp add: is_digit_digit_char)
  next
    case False
    with 1 have "is_digit (hd (decimal (n div 10)))" by simp
    then show ?thesis using False
      by (subst decimal.simps) (simp add: decimal_not_Nil)
  qed
qed

lemma string_to_number_decimal: "string_to_number (decimal n) = Some (int n)"
proof -
  obtain c cs where d: "decimal n = c # cs"
    using decimal_not_Nil [of n] by (cases "decimal n") auto
  have "is_digit c" using hd_decimal_digit [of n] d by simp
  then have "c \<noteq> CHR ''-''" by (auto simp: is_digit_def)
  then show ?thesis
    using digits_value_decimal [of n] d by (simp add: string_to_number_def)
qed



subsection \<open>The run of the job execute-tests, step by step\<close>

lemmas step_defs = checkout_step_def get_test_groups_step_def setup_python_step_def install_azureml_step_def login_step_def
  install_wheel_step_def create_wheel_step_def extract_branch_step_def submit_cpu_step_def
  submit_gpu_step_def submit_spark_step_def print_logs_step_def exit_status_step_def check_step_def

lemma set_failed_check: "set_failed_message ''core.setFailed('All tests did not pass!')'' = Some ''All tests did not pass!''"
  by (simp add: set_failed_message_def strip_prefix_def strip_suffix_def suffix_to_prefix)

lemma gh_equal_decimal: "gh_equal (VStr (decimal n)) (VNum 0) = (n = 0)"
  by (simp add: string_to_number_decimal)

lemma gh_equal_empty: "gh_equal (VStr []) (VNum 0)"
  by (simp add: string_to_number_def)

lemmas env_defs = lookup_def azureml_tests_env_def

lemma exec_checkout:
  "exec_step env c st checkout_step =
     st\<lparr>events := events st @ [Invoked ''Check out repository code'' ''actions/checkout@v2'' []]\<rparr>"
  by (simp add: exec_step_def checkout_step_def is_github_script_def selected_def)

lemma exec_setup_python:
  "exec_step env c st setup_python_step =
     st\<lparr>events := events st @
       [Invoked ''Setup python'' ''actions/setup-python@v2'' [(''python-version'', ''3.8'')]]\<rparr>"
  by (simp add: exec_step_def setup_python_step_def is_github_script_def selected_def
      render_word_def)

lemma exec_install_azureml:
  "exec_step env c st install_azureml_step =
     st\<lparr>events := events st @
       [Executed ''Install azureml-core and azure-cli on a GitHub hosted server''
          [''pip'', ''install'', ''azureml-core'', ''azure-cli'']]\<rparr>"
  by (simp add: exec_step_def install_azureml_step_def selected_def store_outputs_def
      render_word_def)

lemma exec_login:
  "exec_step env c st login_step =
     st\<lparr>events := events st @
       [Invoked ''Log in to Azure'' ''azure/login@v1''
          [(''creds'', secrets c ''AZUREML_TEST_CREDENTIALS'')]]\<rparr>"
  by (simp add: exec_step_def login_step_def is_github_script_def selected_def render_word_def)

lemma exec_install_wheel:
  "exec_step env c st install_wheel_step =
     st\<lparr>events := events st @
       [Executed ''Install wheel package'' [''pip'', ''install'', ''wheel'']]\<rparr>"
  by (simp add: exec_step_def install_wheel_step_def selected_def store_outputs_def
      render_word_def)

lemma exec_create_wheel:
  "exec_step env c st create_wheel_step =
     st\<lparr>events := events st @
       [Executed ''Create wheel from setup.py'' [''python'', ''setup.py'', ''bdist_wheel'']]\<rparr>"
  by (simp add: exec_step_def create_wheel_step_def selected_def store_outputs_def
      render_word_def)

lemma exec_extract_branch:
  "exec_step env c st extract_branch_step =
     st\<lparr>outputs := ((''extract_branch'', ''branch''), shell c ''echo ${GITHUB_REF#refs/heads/}'')
                   # outputs st\<rparr>"
  by (simp add: exec_step_def extract_branch_step_def selected_def store_outputs_def
      render_word_def join_def)

lemma exec_submit_cpu:
  "exec_step env c st submit_cpu_step =
     st\<lparr>events := events st @
       (if gh_contains (matrix c ''test-group'') ''cpu''
        then [Executed ''Submit CPU tests to AzureML'' (command_line env c (outputs st) submit_cpu_step)]
        else [])\<rparr>"
  by (simp add: exec_step_def submit_cpu_step_def selected_def store_outputs_def
      command_line_def step_command_lines_def)

lemma exec_submit_gpu:
  "exec_step env c st submit_gpu_step =
     st\<lparr>events := events st @
       (if gh_contains (matrix c ''test-group'') ''gpu''
        then [Executed ''Submit GPU tests to AzureML'' (command_line env c (outputs st) submit_gpu_step)]
        else [])\<rparr>"
  by (simp add: exec_step_def submit_gpu_step_def selected_def store_outputs_def
      command_line_def step_command_lines_def)

lemma exec_submit_spark:
  "exec_step env c st submit_spark_step =
     st\<lparr>events := events st @
       (if gh_contains (matrix c ''test-group'') ''spark''
        then [Executed ''Submit PySpark tests to AzureML'' (command_line env c (outputs st) submit_spark_step)]
        else [])\<rparr>"
  by (simp add: exec_step_def submit_spark_step_def selected_def store_outputs_def
      command_line_def step_command_lines_def)

lemma exec_print_logs:
  "exec_step azureml_tests_env c st print_logs_step =
     st\<lparr>events := events st @ [Executed ''Print test logs'' [''cat'', lookup azureml_tests_env ''TEST_LOGS_PATH'']]\<rparr>"
  by (simp add: exec_step_def print_logs_step_def selected_def store_outputs_def
      render_word_def)

lemma exec_exit_status:
  "exec_step azureml_tests_env c st exit_status_step =
     st\<lparr>outputs := ((''exit_status'', ''code''), shell c ''cat pytest_exit_code.log'') # outputs st\<rparr>"
  by (simp add: exec_step_def exit_status_step_def selected_def store_outputs_def
      render_word_def join_def env_defs)

lemma exec_check:
  "exec_step env c st check_step =
     st\<lparr>events := events st @
       (if gh_equal (VStr (lookup (outputs st) (''exit_status'', ''code''))) (VNum 0) then []
        else [Invoked ''Check Success/Failure'' ''actions/github-script@v3''
                [(''script'', ''core.setFailed('All tests did not pass!')'')],
              MarkedFailed ''Check Success/Failure'' ''All tests did not pass!''])\<rparr>"
  by (simp add: exec_step_def check_step_def selected_def is_github_script_def render_word_def
      set_failed_check lookup_def)

lemmas exec_steps = exec_checkout exec_setup_python exec_install_azureml exec_login
  exec_install_wheel exec_create_wheel exec_extract_branch exec_submit_cpu exec_submit_gpu
  exec_submit_spark exec_print_logs exec_exit_status exec_check



lemma run_events:
  "events (run_job azureml_tests_env c execute_tests_steps) =
     [Invoked ''Check out repository code'' ''actions/checkout@v2'' [],
      Invoked ''Setup python'' ''actions/setup-python@v2'' [(''python-version'', ''3.8'')],
      Executed ''Install azureml-core and azure-cli on a GitHub hosted server''
        [''pip'', ''install'', ''azureml-core'', ''azure-cli''],
      Invoked ''Log in to Azure'' ''azure/login@v1''
        [(''creds'', secrets c ''AZUREML_TEST_CREDENTIALS'')],
      Executed ''Install wheel package'' [''pip'', ''install'', ''wheel''],
      Executed ''Create wheel from setup.py'' [''python'', ''setup.py'', ''bdist_wheel'']] @
     (if gh_contains (matrix c ''test-group'') ''cpu''
      then [Executed ''Submit CPU tests to AzureML''
              (command_line azureml_tests_env c
                 [((''extract_branch'', ''branch''), shell c ''echo ${GITHUB_REF#refs/heads/}'')]
                 submit_cpu_step)]
      else []) @
     (if gh_contains (matrix c ''test-group'') ''gpu''
      then [Executed ''Submit GPU tests to AzureML''
              (command_line azureml_tests_env c
                 [((''extract_branch'', ''branch''), shell c ''echo ${GITHUB_REF#refs/heads/}'')]
                 submit_gpu_step)]
      else []) @
     (if gh_contains (matrix c ''test-group'') ''spark''
      then [Executed ''Submit PySpark tests to AzureML''
              (command_line azureml_tests_env c
                 [((''extract_branch'', ''branch''), shell c ''echo ${GITHUB_REF#refs/heads/}'')]
                 submit_spark_step)]
      else []) @
     [Executed ''Print test logs'' [''cat'', lookup azureml_tests_env ''TEST_LOGS_PATH'']] @
     (if gh_equal (VStr (shell c ''cat pytest_exit_code.log'')) (VNum 0) then []
      else [Invoked ''Check Success/Failure'' ''actions/github-script@v3''
              [(''script'', ''core.setFailed('All tests did not pass!')'')],
            MarkedFailed ''Check Success/Failure'' ''All tests did not pass!''])"
  by (simp add: run_job_def execute_tests_steps_def exec_steps lookup_def)

lemma map_filter_append: "List.map_filter f (xs @ ys) = List.map_filter f xs @ List.map_filter f ys"
  by (simp add: List.map_filter_def)

lemma failures_run:
  "failures (run_job azureml_tests_env c execute_tests_steps) =
     (if gh_equal (VStr (shell c ''cat pytest_exit_code.log'')) (VNum 0) then []
      else [''All tests did not pass!''])"
  by (simp add: failures_def run_events map_filter_append List.map_filter_simps)

lemma handles_failure_steps:
  "filter handles_failure (get_test_groups_steps @ execute_tests_steps) = [check_step]"
  by (simp add: get_test_groups_steps_def execute_tests_steps_def handles_failure_def
      step_defs sublist_code)

text \<open>
  Claim C2. In the workflow azureml-tests the run is marked as failed exactly when the
  recorded exit-status file holds a value that is not zero. The step
  \<open>Check Success/Failure\<close> calls \<open>core.setFailed('All tests did not pass!')\<close> when the
  file named by \<open>PYTEST_EXIT_CODE\<close>, \<open>pytest_exit_code.log\<close>, holds the numeral of a
  status \<open>n\<close> other than 0, and does not when it holds 0 or nothing; and among all the
  steps of the two jobs it is the only one that handles failure explicitly.
\<close>

theorem run_failed_iff_exit_status_nonzero:
  "failures (run_job azureml_tests_env
      (with_file c (lookup azureml_tests_env ''PYTEST_EXIT_CODE'') (decimal n))
      execute_tests_steps) =
     (if n = 0 then [] else [''All tests did not pass!'']) \<and>
   failures (run_job azureml_tests_env
      (with_file c (lookup azureml_tests_env ''PYTEST_EXIT_CODE'') [])
      execute_tests_steps) = [] \<and>
   lookup azureml_tests_env ''PYTEST_EXIT_CODE'' = ''pytest_exit_code.log'' \<and>
   filter handles_failure (get_test_groups_steps @ execute_tests_steps) = [check_step]"
proof -
  have name: "lookup azureml_tests_env ''PYTEST_EXIT_CODE'' = ''pytest_exit_code.log''"
    by (simp add: env_defs)
  have "failures (run_job azureml_tests_env (with_file c ''pytest_exit_code.log'' (decimal n))
      execute_tests_steps) = (if n = 0 then [] else [''All tests did not pass!''])"
    by (simp add: failures_run with_file_def gh_equal_decimal del: gh_equal.simps)
  moreover have "failures (run_job azureml_tests_env (with_file c ''pytest_exit_code.log'' [])
      execute_tests_steps) = []"
    by (simp add: failures_run with_file_def gh_equal_empty del: gh_equal.simps)
  ultimately show ?thesis
    unfolding name using handles_failure_steps by simp
qed

text \<open>The theorem at the example context, with the exit status 1 and with the exit status 0.\<close>

theorem run_failed_iff_exit_status_nonzero_witness:
  "failures (run_job azureml_tests_env
      (with_file (example_context ''group_gpu_001'') ''pytest_exit_code.log'' ''1'')
      execute_tests_steps) = [''All tests did not pass!''] \<and>
   failures (run_job azureml_tests_env
      (with_file (example_context ''group_gpu_001'') ''pytest_exit_code.log'' ''0'')
      execute_tests_steps) = []"
proof -
  have d1: "decimal 1 = ''1''" and d0: "decimal 0 = ''0''"
    by code_simp+
  have name: "lookup azureml_tests_env ''PYTEST_EXIT_CODE'' = ''pytest_exit_code.log''"
    by (simp add: env_defs)
  from run_failed_iff_exit_status_nonzero [of "example_context ''group_gpu_001''" 1]
    run_failed_iff_exit_status_nonzero [of "example_context ''group_gpu_001''" 0]
  show ?thesis
    unfolding name d1 d0 by simp
qed

lemma is_submission_execute_steps:
  "filter is_submission execute_tests_steps =
     [submit_cpu_step, submit_gpu_step, submit_spark_step]"
  by (simp add: execute_tests_steps_def is_submission_def
      step_command_lines_def step_defs submit_script_def)

lemma submit_names:
  "step_name submit_cpu_step = ''Submit CPU tests to AzureML''"
  "step_name submit_gpu_step = ''Submit GPU tests to AzureML''"
  "step_name submit_spark_step = ''Submit PySpark tests to AzureML''"
  by (simp_all add: step_defs)

lemma has_flags:
  "\<not> has_flag submit_cpu_step ''--add_gpu_dependencies''"
  "\<not> has_flag submit_cpu_step ''--add_spark_dependencies''"
  "has_flag submit_gpu_step ''--add_gpu_dependencies''"
  "\<not> has_flag submit_gpu_step ''--add_spark_dependencies''"
  "\<not> has_flag submit_spark_step ''--add_gpu_dependencies''"
  "has_flag submit_spark_step ''--add_spark_dependencies''"
  by (simp_all add: has_flag_def step_command_lines_def step_defs submit_script_def)

lemma cluster_parameters:
  "parameter azureml_tests_env c outs submit_cpu_step ''--clustername'' = Some ''cpu-cluster''"
  "parameter azureml_tests_env c outs submit_gpu_step ''--clustername'' = Some ''gpu-cluster''"
  "parameter azureml_tests_env c outs submit_spark_step ''--clustername'' = Some ''cpu-cluster''"
  by (simp_all add: parameter_def step_command_lines_def step_defs render_word_def env_defs
      submit_script_def)

lemma submissions_run:
  "submissions execute_tests_steps (run_job azureml_tests_env c execute_tests_steps) =
     (if gh_contains (matrix c ''test-group'') ''cpu''
      then [(''Submit CPU tests to AzureML'',
             command_line azureml_tests_env c
               [((''extract_branch'', ''branch''), shell c ''echo ${GITHUB_REF#refs/heads/}'')]
               submit_cpu_step)]
      else []) @
     (if gh_contains (matrix c ''test-group'') ''gpu''
      then [(''Submit GPU tests to AzureML'',
             command_line azureml_tests_env c
               [((''extract_branch'', ''branch''), shell c ''echo ${GITHUB_REF#refs/heads/}'')]
               submit_gpu_step)]
      else []) @
     (if gh_contains (matrix c ''test-group'') ''spark''
      then [(''Submit PySpark tests to AzureML'',
             command_line azureml_tests_env c
               [((''extract_branch'', ''branch''), shell c ''echo ${GITHUB_REF#refs/heads/}'')]
               submit_spark_step)]
      else [])"
  unfolding submissions_def is_submission_execute_steps run_events
  by (simp add: map_filter_append List.map_filter_simps submit_names)

lemma contains_examples:
  "gh_contains ''group_gpu_001'' ''gpu''"
  "\<not> gh_contains ''group_gpu_001'' ''cpu''"
  "\<not> gh_contains ''group_gpu_001'' ''spark''"
  by code_simp+

text \<open>
  Claim C10. For every matrix entry, the submission steps that run are exactly those whose
  \<open>contains\<close> condition holds of the test-group name, in the order CPU, GPU, PySpark, and
  none of them when the name contains none of \<open>cpu\<close>, \<open>gpu\<close>, \<open>spark\<close> (containment as
  \<open>contains\<close> reads it, ignoring letter case). The CPU step submits to the CPU cluster, the
  GPU step to the GPU cluster with \<open>--add_gpu_dependencies\<close>, and the PySpark step to the
  CPU cluster as well, with \<open>--add_spark_dependencies\<close>.
\<close>

theorem submissions_follow_test_group:
  "submissions execute_tests_steps (run_job azureml_tests_env c execute_tests_steps) =
     (if gh_contains (matrix c ''test-group'') ''cpu''
      then [(step_name submit_cpu_step,
             command_line azureml_tests_env c
               [((''extract_branch'', ''branch''), shell c ''echo ${GITHUB_REF#refs/heads/}'')]
               submit_cpu_step)]
      else []) @
     (if gh_contains (matrix c ''test-group'') ''gpu''
      then [(step_name submit_gpu_step,
             command_line azureml_tests_env c
               [((''extract_branch'', ''branch''), shell c ''echo ${GITHUB_REF#refs/heads/}'')]
               submit_gpu_step)]
      else []) @
     (if gh_contains (matrix c ''test-group'') ''spark''
      then [(step_name submit_spark_step,
             command_line azureml_tests_env c
               [((''extract_branch'', ''branch''), shell c ''echo ${GITHUB_REF#refs/heads/}'')]
               submit_spark_step)]
      else []) \<and>
   parameter azureml_tests_env c outs submit_cpu_step ''--clustername'' = Some ''cpu-cluster'' \<and>
   \<not> has_flag submit_cpu_step ''--add_gpu_dependencies'' \<and>
   \<not> has_flag submit_cpu_step ''--add_spark_dependencies'' \<and>
   parameter azureml_tests_env c outs submit_gpu_step ''--clustername'' = Some ''gpu-cluster'' \<and>
   has_flag submit_gpu_step ''--add_gpu_dependencies'' \<and>
   \<not> has_flag submit_gpu_step ''--add_spark_dependencies'' \<and>
   parameter azureml_tests_env c outs submit_spark_step ''--clustername'' = Some ''cpu-cluster'' \<and>
   \<not> has_flag submit_spark_step ''--add_gpu_dependencies'' \<and>
   has_flag submit_spark_step ''--add_spark_dependencies''"
  unfolding submissions_run submit_names
  by (simp only: has_flags cluster_parameters not_False_eq_True simp_thms)

text \<open>The theorem at the example run of the test group \<open>group_gpu_001\<close>.\<close>

theorem submissions_follow_test_group_witness:
  "map fst (submissions execute_tests_steps
      (run_job azureml_tests_env (example_context ''group_gpu_001'') execute_tests_steps)) =
     [''Submit GPU tests to AzureML''] \<and>
   gh_contains (matrix (example_context ''group_gpu_001'') ''test-group'') ''gpu''"
  using submissions_follow_test_group [of "example_context ''group_gpu_001''"]
  by (simp add: example_context_def contains_examples submit_names)

subsection \<open>Test submissions and the exit-status file\<close>

















section \<open>The run of the notebook\<close>

text \<open>The complete run: the final bindings and every call, in order.\<close>

lemma run_notebook:
  "run notebook =
   Inr \<lparr>globals =
     [(''eval_recall'', ReturnedV 22),
     (''eval_precision'', ReturnedV 21), (''eval_ndcg'', ReturnedV 20),
     (''eval_map'', ReturnedV 19), (''all_predictions'', ReturnedV 16),
     (''t'', EnteredV (ReturnedV 15)), (''t'', EnteredV (ReturnedV 12)),
     (''bpr'', ReturnedV 11), (''train_set'', ReturnedV 6),
     (''test'', ItemV (ReturnedV 4) 1),
     (''train'', ItemV (ReturnedV 4) 0), (''data'', ReturnedV 2),
     (''NUM_EPOCHS'', IntV 100), (''NUM_FACTORS'', IntV 200),
     (''TOP_K'', IntV 10), (''MOVIELENS_DATA_SIZE'', StrV ''100k''),
     (''store_metadata'',
     ImportedV ''recommenders.utils.notebook_utils''
     ''store_metadata''),
     (''SEED'', ImportedV ''recommenders.utils.constants'' ''SEED''),
     (''Timer'', ImportedV ''recommenders.utils.timer'' ''Timer''),
     (''BPR'', ImportedV ''recommenders.models.cornac.bpr'' ''BPR''),
     (''recall_at_k'',
     ImportedV ''recommenders.evaluation.python_evaluation''
     ''recall_at_k''),
     (''precision_at_k'',
     ImportedV ''recommenders.evaluation.python_evaluation''
     ''precision_at_k''),
     (''ndcg_at_k'',
     ImportedV ''recommenders.evaluation.python_evaluation''
     ''ndcg_at_k''),
     (''map'',
     ImportedV ''recommenders.evaluation.python_evaluation'' ''map''),
     (''python_random_split'',
     ImportedV ''recommenders.datasets.python_splitters''
     ''python_random_split''),
     (''movielens'', ImportedV ''recommenders.datasets'' ''movielens''),
     (''cornac'', ModuleV ''cornac''), (''sys'', ModuleV ''sys'')],
     calls =
     [\<lparr>call_fun = BuiltinV ''print'',
     call_args =
     [FStringV
     [StrV ''System version: '',
     FieldV (AttrV (ModuleV ''sys'') ''version'') []]],
     call_kwargs = []\<rparr>,
     \<lparr>call_fun = BuiltinV ''print'',
     call_args =
     [FStringV
     [StrV ''Cornac version: '',
     FieldV (AttrV (ModuleV ''cornac'') ''__version__'') []]],
     call_kwargs = []\<rparr>,
     \<lparr>call_fun =
     AttrV (ImportedV ''recommenders.datasets'' ''movielens'')
     ''load_pandas_df'',
     call_args = [],
     call_kwargs =
     [(''size'', StrV ''100k''),
     (''header'',
     ListV
     [StrV ''userID'', StrV ''itemID'', StrV ''rating''])]\<rparr>,
     \<lparr>call_fun = AttrV (ReturnedV 2) ''head'', call_args = [],
     call_kwargs = []\<rparr>,
     \<lparr>call_fun =
     ImportedV ''recommenders.datasets.python_splitters''
     ''python_random_split'',
     call_args = [ReturnedV 2, FloatV 75 2], call_kwargs = []\<rparr>,
     \<lparr>call_fun = AttrV (ItemV (ReturnedV 4) 0) ''itertuples'',
     call_args = [], call_kwargs = [(''index'', BoolV False)]\<rparr>,
     \<lparr>call_fun =
     AttrV
     (AttrV (AttrV (ModuleV ''cornac'') ''data'') ''Dataset'')
     ''from_uir'',
     call_args = [ReturnedV 5],
     call_kwargs =
     [(''seed'',
     ImportedV ''recommenders.utils.constants'' ''SEED'')]\<rparr>,
     \<lparr>call_fun = AttrV (StrV ''Number of users: {}'') ''format'',
     call_args = [AttrV (ReturnedV 6) ''num_users''],
     call_kwargs = []\<rparr>,
     \<lparr>call_fun = BuiltinV ''print'', call_args = [ReturnedV 7],
     call_kwargs = []\<rparr>,
     \<lparr>call_fun = AttrV (StrV ''Number of items: {}'') ''format'',
     call_args = [AttrV (ReturnedV 6) ''num_items''],
     call_kwargs = []\<rparr>,
     \<lparr>call_fun = BuiltinV ''print'', call_args = [ReturnedV 9],
     call_kwargs = []\<rparr>,
     \<lparr>call_fun = ImportedV ''recommenders.models.cornac.bpr'' ''BPR'',
     call_args = [],
     call_kwargs =
     [(''k'', IntV 200), (''max_iter'', IntV 100),
     (''learning_rate'', FloatV 1 2),
     (''lambda_reg'', FloatV 1 3), (''verbose'', BoolV True),
     (''seed'',
     ImportedV ''recommenders.utils.constants'' ''SEED'')]\<rparr>,
     \<lparr>call_fun = ImportedV ''recommenders.utils.timer'' ''Timer'',
     call_args = [], call_kwargs = []\<rparr>,
     \<lparr>call_fun = AttrV (ReturnedV 11) ''fit'',
     call_args = [ReturnedV 6], call_kwargs = []\<rparr>,
     \<lparr>call_fun = BuiltinV ''print'',
     call_args =
     [FStringV
     [StrV ''Took '', FieldV (EnteredV (ReturnedV 12)) [],
     StrV '' seconds for training.'']],
     call_kwargs = []\<rparr>,
     \<lparr>call_fun = ImportedV ''recommenders.utils.timer'' ''Timer'',
     call_args = [], call_kwargs = []\<rparr>,
     \<lparr>call_fun = AttrV (ReturnedV 11) ''recommend_k_items'',
     call_args = [ItemV (ReturnedV 4) 0],
     call_kwargs =
     [(''col_user'', StrV ''userID''),
     (''col_item'', StrV ''itemID''),
     (''remove_seen'', BoolV True)]\<rparr>,
     \<lparr>call_fun = BuiltinV ''print'',
     call_args =
     [FStringV
     [StrV ''Took '', FieldV (EnteredV (ReturnedV 15)) [],
     StrV '' seconds for prediction.'']],
     call_kwargs = []\<rparr>,
     \<lparr>call_fun = AttrV (ReturnedV 16) ''head'', call_args = [],
     call_kwargs = []\<rparr>,
     \<lparr>call_fun =
     ImportedV ''recommenders.evaluation.python_evaluation''
     ''map'',
     call_args = [ItemV (ReturnedV 4) 1, ReturnedV 16],
     call_kwargs =
     [(''col_prediction'', StrV ''prediction''),
     (''k'', IntV 10)]\<rparr>,
     \<lparr>call_fun =
     ImportedV ''recommenders.evaluation.python_evaluation''
     ''ndcg_at_k'',
     call_args = [ItemV (ReturnedV 4) 1, ReturnedV 16],
     call_kwargs =
     [(''col_prediction'', StrV ''prediction''),
     (''k'', IntV 10)]\<rparr>,
     \<lparr>call_fun =
     ImportedV ''recommenders.evaluation.python_evaluation''
     ''precision_at_k'',
     call_args = [ItemV (ReturnedV 4) 1, ReturnedV 16],
     call_kwargs =
     [(''col_prediction'', StrV ''prediction''),
     (''k'', IntV 10)]\<rparr>,
     \<lparr>call_fun =
     ImportedV ''recommenders.evaluation.python_evaluation''
     ''recall_at_k'',
     call_args = [ItemV (ReturnedV 4) 1, ReturnedV 16],
     call_kwargs =
     [(''col_prediction'', StrV ''prediction''),
     (''k'', IntV 10)]\<rparr>,
     \<lparr>call_fun = BuiltinV ''print'',
     call_args =
     [FStringV [StrV ''Model:''],
     FStringV
     [StrV
     [CHR ''T'', CHR ''o'', CHR ''p'', CHR '' '', CHR ''K'',
     CHR '':'', CHR 0x09, CHR 0x09, CHR '' ''],
     FieldV (IntV 10) []],
     FStringV
     [StrV
     [CHR ''M'', CHR ''A'', CHR ''P'', CHR '':'', CHR 0x09,
     CHR 0x09, CHR '' ''],
     FieldV (ReturnedV 19) ''f''],
     FStringV
     [StrV
     [CHR ''N'', CHR ''D'', CHR ''C'', CHR ''G'', CHR '':'',
     CHR 0x09, CHR 0x09, CHR '' ''],
     FieldV (ReturnedV 20) ''f''],
     FStringV
     [StrV
     [CHR ''P'', CHR ''r'', CHR ''e'', CHR ''c'', CHR ''i'',
     CHR ''s'', CHR ''i'', CHR ''o'', CHR ''n'', CHR ''@'',
     CHR ''K'', CHR '':'', CHR 0x09, CHR '' ''],
     FieldV (ReturnedV 21) ''f''],
     FStringV
     [StrV
     [CHR ''R'', CHR ''e'', CHR ''c'', CHR ''a'', CHR ''l'',
     CHR ''l'', CHR ''@'', CHR ''K'', CHR '':'', CHR 0x09,
     CHR '' ''],
     FieldV (ReturnedV 22) ''f'']],
     call_kwargs = [(''sep'', StrV [CHR 0x0A])]\<rparr>,
     \<lparr>call_fun =
     ImportedV ''recommenders.utils.notebook_utils''
     ''store_metadata'',
     call_args = [StrV ''map'', ReturnedV 19], call_kwargs = []\<rparr>,
     \<lparr>call_fun =
     ImportedV ''recommenders.utils.notebook_utils''
     ''store_metadata'',
     call_args = [StrV ''ndcg'', ReturnedV 20], call_kwargs = []\<rparr>,
     \<lparr>call_fun =
     ImportedV ''recommenders.utils.notebook_utils''
     ''store_metadata'',
     call_args = [StrV ''precision'', ReturnedV 21],
     call_kwargs = []\<rparr>,
     \<lparr>call_fun =
     ImportedV ''recommenders.utils.notebook_utils''
     ''store_metadata'',
     call_args = [StrV ''recall'', ReturnedV 22],
     call_kwargs = []\<rparr>]\<rparr>"
  by code_simp

lemma calls_notebook:
  "calls_of (run notebook) = 
     [\<lparr>call_fun = BuiltinV ''print'',
     call_args =
     [FStringV
     [StrV ''System version: '',
     FieldV (AttrV (ModuleV ''sys'') ''version'') []]],
     call_kwargs = []\<rparr>,
     \<lparr>call_fun = BuiltinV ''print'',
     call_args =
     [FStringV
     [StrV ''Cornac version: '',
     FieldV (AttrV (ModuleV ''cornac'') ''__version__'') []]],
     call_kwargs = []\<rparr>,
     \<lparr>call_fun =
     AttrV (ImportedV ''recommenders.datasets'' ''movielens'')
     ''load_pandas_df'',
     call_args = [],
     call_kwargs =
     [(''size'', StrV ''100k''),
     (''header'',
     ListV
     [StrV ''userID'', StrV ''itemID'', StrV ''rating''])]\<rparr>,
     \<lparr>call_fun = AttrV (ReturnedV 2) ''head'', call_args = [],
     call_kwargs = []\<rparr>,
     \<lparr>call_fun =
     ImportedV ''recommenders.datasets.python_splitters''
     ''python_random_split'',
     call_args = [ReturnedV 2, FloatV 75 2], call_kwargs = []\<rparr>,
     \<lparr>call_fun = AttrV (ItemV (ReturnedV 4) 0) ''itertuples'',
     call_args = [], call_kwargs = [(''index'', BoolV False)]\<rparr>,
     \<lparr>call_fun =
     AttrV
     (AttrV (AttrV (ModuleV ''cornac'') ''data'') ''Dataset'')
     ''from_uir'',
     call_args = [ReturnedV 5],
     call_kwargs =
     [(''seed'',
     ImportedV ''recommenders.utils.constants'' ''SEED'')]\<rparr>,
     \<lparr>call_fun = AttrV (StrV ''Number of users: {}'') ''format'',
     call_args = [AttrV (ReturnedV 6) ''num_users''],
     call_kwargs = []\<rparr>,
     \<lparr>call_fun = BuiltinV ''print'', call_args = [ReturnedV 7],
     call_kwargs = []\<rparr>,
     \<lparr>call_fun = AttrV (StrV ''Number of items: {}'') ''format'',
     call_args = [AttrV (ReturnedV 6) ''num_items''],
     call_kwargs = []\<rparr>,
     \<lparr>call_fun = BuiltinV ''print'', call_args = [ReturnedV 9],
     call_kwargs = []\<rparr>,
     \<lparr>call_fun = ImportedV ''recommenders.models.cornac.bpr'' ''BPR'',
     call_args = [],
     call_kwargs =
     [(''k'', IntV 200), (''max_iter'', IntV 100),
     (''learning_rate'', FloatV 1 2),
     (''lambda_reg'', FloatV 1 3), (''verbose'', BoolV True),
     (''seed'',
     ImportedV ''recommenders.utils.constants'' ''SEED'')]\<rparr>,
     \<lparr>call_fun = ImportedV ''recommenders.utils.timer'' ''Timer'',
     call_args = [], call_kwargs = []\<rparr>,
     \<lparr>call_fun = AttrV (ReturnedV 11) ''fit'',
     call_args = [ReturnedV 6], call_kwargs = []\<rparr>,
     \<lparr>call_fun = BuiltinV ''print'',
     call_args =
     [FStringV
     [StrV ''Took '', FieldV (EnteredV (ReturnedV 12)) [],
     StrV '' seconds for training.'']],
     call_kwargs = []\<rparr>,
     \<lparr>call_fun = ImportedV ''recommenders.utils.timer'' ''Timer'',
     call_args = [], call_kwargs = []\<rparr>,
     \<lparr>call_fun = AttrV (ReturnedV 11) ''recommend_k_items'',
     call_args = [ItemV (ReturnedV 4) 0],
     call_kwargs =
     [(''col_user'', StrV ''userID''),
     (''col_item'', StrV ''itemID''),
     (''remove_seen'', BoolV True)]\<rparr>,
     \<lparr>call_fun = BuiltinV ''print'',
     call_args =
     [FStringV
     [StrV ''Took '', FieldV (EnteredV (ReturnedV 15)) [],
     StrV '' seconds for prediction.'']],
     call_kwargs = []\<rparr>,
     \<lparr>call_fun = AttrV (ReturnedV 16) ''head'', call_args = [],
     call_kwargs = []\<rparr>,
     \<lparr>call_fun =
     ImportedV ''recommenders.evaluation.python_evaluation''
     ''map'',
     call_args = [ItemV (ReturnedV 4) 1, ReturnedV 16],
     call_kwargs =
     [(''col_prediction'', StrV ''prediction''),
     (''k'', IntV 10)]\<rparr>,
     \<lparr>call_fun =
     ImportedV ''recommenders.evaluation.python_evaluation''
     ''ndcg_at_k'',
     call_args = [ItemV (ReturnedV 4) 1, ReturnedV 16],
     call_kwargs =
     [(''col_prediction'', StrV ''prediction''),
     (''k'', IntV 10)]\<rparr>,
     \<lparr>call_fun =
     ImportedV ''recommenders.evaluation.python_evaluation''
     ''precision_at_k'',
     call_args = [ItemV (ReturnedV 4) 1, ReturnedV 16],
     call_kwargs =
     [(''col_prediction'', StrV ''prediction''),
     (''k'', IntV 10)]\<rparr>,
     \<lparr>call_fun =
     ImportedV ''recommenders.evaluation.python_evaluation''
     ''recall_at_k'',
     call_args = [ItemV (ReturnedV 4) 1, ReturnedV 16],
     call_kwargs =
     [(''col_prediction'', StrV ''prediction''),
     (''k'', IntV 10)]\<rparr>,
     \<lparr>call_fun = BuiltinV ''print'',
     call_args =
     [FStringV [StrV ''Model:''],
     FStringV
     [StrV
     [CHR ''T'', CHR ''o'', CHR ''p'', CHR '' '', CHR ''K'',
     CHR '':'', CHR 0x09, CHR 0x09, CHR '' ''],
     FieldV (IntV 10) []],
     FStringV
     [StrV
     [CHR ''M'', CHR ''A'', CHR ''P'', CHR '':'', CHR 0x09,
     CHR 0x09, CHR '' ''],
     FieldV (ReturnedV 19) ''f''],
     FStringV
     [StrV
     [CHR ''N'', CHR ''D'', CHR ''C'', CHR ''G'', CHR '':'',
     CHR 0x09, CHR 0x09, CHR '' ''],
     FieldV (ReturnedV 20) ''f''],
     FStringV
     [StrV
     [CHR ''P'', CHR ''r'', CHR ''e'', CHR ''c'', CHR ''i'',
     CHR ''s'', CHR ''i'', CHR ''o'', CHR ''n'', CHR ''@'',
     CHR ''K'', CHR '':'', CHR 0x09, CHR '' ''],
     FieldV (ReturnedV 21) ''f''],
     FStringV
     [StrV
     [CHR ''R'', CHR ''e'', CHR ''c'', CHR ''a'', CHR ''l'',
     CHR ''l'', CHR ''@'', CHR ''K'', CHR '':'', CHR 0x09,
     CHR '' ''],
     FieldV (ReturnedV 22) ''f'']],
     call_kwargs = [(''sep'', StrV [CHR 0x0A])]\<rparr>,
     \<lparr>call_fun =
     ImportedV ''recommenders.utils.notebook_utils''
     ''store_metadata'',
     call_args = [StrV ''map'', ReturnedV 19], call_kwargs = []\<rparr>,
     \<lparr>call_fun =
     ImportedV ''recommenders.utils.notebook_utils''
     ''store_metadata'',
     call_args = [StrV ''ndcg'', ReturnedV 20], call_kwargs = []\<rparr>,
     \<lparr>call_fun =
     ImportedV ''recommenders.utils.notebook_utils''
     ''store_metadata'',
     call_args = [StrV ''precision'', ReturnedV 21],
     call_kwargs = []\<rparr>,
     \<lparr>call_fun =
     ImportedV ''recommenders.utils.notebook_utils''
     ''store_metadata'',
     call_args = [StrV ''recall'', ReturnedV 22],
     call_kwargs = []\<rparr>]"
  by (simp add: calls_of_def run_notebook)

lemma globals_notebook:
  "global_of (run notebook) ''NUM_FACTORS'' = Some (IntV 200)"
  "global_of (run notebook) ''NUM_EPOCHS'' = Some (IntV 100)"
  "global_of (run notebook) ''TOP_K'' = Some (IntV 10)"
  "global_of (run notebook) ''SEED'' = Some (ImportedV ''recommenders.utils.constants'' ''SEED'')"
  "global_of (run notebook) ''data'' = Some (ReturnedV 2)"
  "global_of (run notebook) ''train'' = Some (ItemV (ReturnedV 4) 0)"
  "global_of (run notebook) ''test'' = Some (ItemV (ReturnedV 4) 1)"
  "global_of (run notebook) ''all_predictions'' = Some (ReturnedV 16)"
  "global_of (run notebook) ''eval_map'' = Some (ReturnedV 19)"
  "global_of (run notebook) ''eval_ndcg'' = Some (ReturnedV 20)"
  "global_of (run notebook) ''eval_precision'' = Some (ReturnedV 21)"
  "global_of (run notebook) ''eval_recall'' = Some (ReturnedV 22)"
  by (simp_all add: global_of_def run_notebook)


lemma stage_calls_notebook:
  "stage_calls (calls_of (run notebook)) =
     [(2, \<lparr>call_fun = AttrV (ImportedV ''recommenders.datasets'' ''movielens'') ''load_pandas_df'',
           call_args = [],
           call_kwargs = [(''size'', StrV ''100k''),
             (''header'', ListV [StrV ''userID'', StrV ''itemID'', StrV ''rating''])]\<rparr>),
      (4, \<lparr>call_fun = ImportedV ''recommenders.datasets.python_splitters'' ''python_random_split'',
           call_args = [ReturnedV 2, FloatV 75 2], call_kwargs = []\<rparr>),
      (5, \<lparr>call_fun = AttrV (ItemV (ReturnedV 4) 0) ''itertuples'',
           call_args = [], call_kwargs = [(''index'', BoolV False)]\<rparr>),
      (6, \<lparr>call_fun = AttrV (AttrV (AttrV (ModuleV ''cornac'') ''data'') ''Dataset'') ''from_uir'',
           call_args = [ReturnedV 5],
           call_kwargs = [(''seed'', ImportedV ''recommenders.utils.constants'' ''SEED'')]\<rparr>),
      (11, \<lparr>call_fun = ImportedV ''recommenders.models.cornac.bpr'' ''BPR'',
            call_args = [],
            call_kwargs =
              [(''k'', IntV 200), (''max_iter'', IntV 100), (''learning_rate'', FloatV 1 2),
               (''lambda_reg'', FloatV 1 3), (''verbose'', BoolV True),
               (''seed'', ImportedV ''recommenders.utils.constants'' ''SEED'')]\<rparr>),
      (13, \<lparr>call_fun = AttrV (ReturnedV 11) ''fit'',
            call_args = [ReturnedV 6], call_kwargs = []\<rparr>),
      (16, \<lparr>call_fun = AttrV (ReturnedV 11) ''recommend_k_items'',
            call_args = [ItemV (ReturnedV 4) 0],
            call_kwargs = [(''col_user'', StrV ''userID''), (''col_item'', StrV ''itemID''),
              (''remove_seen'', BoolV True)]\<rparr>),
      (19, \<lparr>call_fun = ImportedV ''recommenders.evaluation.python_evaluation'' ''map'',
            call_args = [ItemV (ReturnedV 4) 1, ReturnedV 16],
            call_kwargs = [(''col_prediction'', StrV ''prediction''), (''k'', IntV 10)]\<rparr>),
      (20, \<lparr>call_fun = ImportedV ''recommenders.evaluation.python_evaluation'' ''ndcg_at_k'',
            call_args = [ItemV (ReturnedV 4) 1, ReturnedV 16],
            call_kwargs = [(''col_prediction'', StrV ''prediction''), (''k'', IntV 10)]\<rparr>),
      (21, \<lparr>call_fun = ImportedV ''recommenders.evaluation.python_evaluation'' ''precision_at_k'',
            call_args = [ItemV (ReturnedV 4) 1, ReturnedV 16],
            call_kwargs = [(''col_prediction'', StrV ''prediction''), (''k'', IntV 10)]\<rparr>),
      (22, \<lparr>call_fun = ImportedV ''recommenders.evaluation.python_evaluation'' ''recall_at_k'',
            call_args = [ItemV (ReturnedV 4) 1, ReturnedV 16],
            call_kwargs = [(''col_prediction'', StrV ''prediction''), (''k'', IntV 10)]\<rparr>),
      (24, \<lparr>call_fun = ImportedV ''recommenders.utils.notebook_utils'' ''store_metadata'',
            call_args = [StrV ''map'', ReturnedV 19], call_kwargs = []\<rparr>),
      (25, \<lparr>call_fun = ImportedV ''recommenders.utils.notebook_utils'' ''store_metadata'',
            call_args = [StrV ''ndcg'', ReturnedV 20], call_kwargs = []\<rparr>),
      (26, \<lparr>call_fun = ImportedV ''recommenders.utils.notebook_utils'' ''store_metadata'',
            call_args = [StrV ''precision'', ReturnedV 21], call_kwargs = []\<rparr>),
      (27, \<lparr>call_fun = ImportedV ''recommenders.utils.notebook_utils'' ''store_metadata'',
            call_args = [StrV ''recall'', ReturnedV 22], call_kwargs = []\<rparr>)]"
  unfolding calls_notebook
  by (simp add: stage_calls_def stage_names_def enumerate_eq_zip upt_rec)

lemma pipeline_globals:
  "map (global_of (run notebook))
     [''data'', ''train'', ''test'', ''train_set'', ''bpr'', ''all_predictions'',
      ''eval_map'', ''eval_ndcg'', ''eval_precision'', ''eval_recall''] =
     [Some (ReturnedV 2), Some (ItemV (ReturnedV 4) 0), Some (ItemV (ReturnedV 4) 1),
      Some (ReturnedV 6), Some (ReturnedV 11), Some (ReturnedV 16),
      Some (ReturnedV 19), Some (ReturnedV 20), Some (ReturnedV 21), Some (ReturnedV 22)]"
  by (simp add: global_of_def run_notebook)

lemma consumes_earlier_notebook: "consumes_earlier (stage_calls (calls_of (run notebook)))"
  unfolding stage_calls_notebook
  by (simp add: consumes_earlier_def call_refs_def)

lemma emit_call_notebook:
  "map (\<lambda>c. (call_fun c, call_refs c)) (take 1 (drop 23 (calls_of (run notebook)))) =
     [(BuiltinV ''print'', [19, 20, 21, 22])]"
  unfolding calls_notebook
  by (simp add: call_refs_def)

text \<open>
  Claim C4. The notebook constructs the BPR model once, with no positional argument and
  exactly six keyword arguments: \<open>k\<close> = \<open>NUM_FACTORS\<close> = 200, \<open>max_iter\<close> = \<open>NUM_EPOCHS\<close> =
  100, \<open>learning_rate\<close> = 0.01, \<open>lambda_reg\<close> = 0.001, \<open>verbose\<close> = True and \<open>seed\<close> = \<open>SEED\<close>,
  the constant imported from \<open>recommenders.utils.constants\<close>.
\<close>

theorem bpr_constructor_hyperparameters:
  "calls_to (ImportedV ''recommenders.models.cornac.bpr'' ''BPR'') (calls_of (run notebook)) =
     [\<lparr>call_fun = ImportedV ''recommenders.models.cornac.bpr'' ''BPR'',
       call_args = [],
       call_kwargs =
         [(''k'', IntV 200), (''max_iter'', IntV 100), (''learning_rate'', FloatV 1 2),
          (''lambda_reg'', FloatV 1 3), (''verbose'', BoolV True),
          (''seed'', ImportedV ''recommenders.utils.constants'' ''SEED'')]\<rparr>] \<and>
   global_of (run notebook) ''NUM_FACTORS'' = Some (IntV 200) \<and>
   global_of (run notebook) ''NUM_EPOCHS'' = Some (IntV 100) \<and>
   global_of (run notebook) ''SEED'' = Some (ImportedV ''recommenders.utils.constants'' ''SEED'')"
  unfolding calls_notebook
  by (simp add: calls_to_def globals_notebook)

text \<open>
  Claim C5. Each of the four evaluation functions \<open>map\<close>, \<open>ndcg_at_k\<close>, \<open>precision_at_k\<close>
  and \<open>recall_at_k\<close> is called once, on the value of \<open>test\<close> (the second component of the
  result of \<open>python_random_split\<close>) and the value of \<open>all_predictions\<close> (the result of
  \<open>recommend_k_items\<close>), with \<open>k\<close> = \<open>TOP_K\<close> = 10. Each result is bound whole to one name
  and is a scalar by the result type of the evaluation functions.
\<close>

theorem metrics_applied_to_test_and_predictions:
  "map (\<lambda>f. calls_to (ImportedV ''recommenders.evaluation.python_evaluation'' f)
          (calls_of (run notebook)))
     [''map'', ''ndcg_at_k'', ''precision_at_k'', ''recall_at_k''] =
   map (\<lambda>f. [\<lparr>call_fun = ImportedV ''recommenders.evaluation.python_evaluation'' f,
               call_args = [ItemV (ReturnedV 4) 1, ReturnedV 16],
               call_kwargs = [(''col_prediction'', StrV ''prediction''), (''k'', IntV 10)]\<rparr>])
     [''map'', ''ndcg_at_k'', ''precision_at_k'', ''recall_at_k''] \<and>
   global_of (run notebook) ''test'' = Some (ItemV (ReturnedV 4) 1) \<and>
   name_at (calls_of (run notebook)) 4 = ''python_random_split'' \<and>
   global_of (run notebook) ''all_predictions'' = Some (ReturnedV 16) \<and>
   name_at (calls_of (run notebook)) 16 = ''recommend_k_items'' \<and>
   global_of (run notebook) ''TOP_K'' = Some (IntV 10) \<and>
   map (global_of (run notebook)) [''eval_map'', ''eval_ndcg'', ''eval_precision'', ''eval_recall''] =
     [Some (ReturnedV 19), Some (ReturnedV 20), Some (ReturnedV 21), Some (ReturnedV 22)] \<and>
   map (name_at (calls_of (run notebook))) [19, 20, 21, 22] =
     [''map'', ''ndcg_at_k'', ''precision_at_k'', ''recall_at_k''] \<and>
   map (\<lambda>i. map_option (result_sort \<circ> call_fun)
          (case drop i (calls_of (run notebook)) of [] \<Rightarrow> None | c # rest \<Rightarrow> Some c))
     [19, 20, 21, 22] = [Some Scalar, Some Scalar, Some Scalar, Some Scalar]"
  unfolding calls_notebook
  by (simp add: calls_to_def globals_notebook name_at_def result_sort_def)

text \<open>
  Claim C6. The notebook runs as one linear sequence, and no name is read before it is bound.
  Its stages come in this order, each given with its position among the calls of the run
  (the result of the call at position \<open>i\<close> is \<open>ReturnedV i\<close>): load the MovieLens table (2);
  split it into train and test, the two components of the result (4); iterate over the
  train rows, component 0 of the split (5), and construct the Cornac data set from them
  (6); instantiate BPR with the hyperparameters (11); fit the model on the train set (13);
  predict the recommendations (16); score them against test, component 1 of the split,
  with the four metrics (19 to 22); print the four scores (23) and record them (24 to 27).
  Each stage consumes results of earlier stages only, and the names of the script are bound
  to the results of these stages.
\<close>

theorem notebook_is_a_linear_pipeline:
  "(\<exists>st. run notebook = Inr st) \<and>
   stage_calls (calls_of (run notebook)) =
     [(2, \<lparr>call_fun = AttrV (ImportedV ''recommenders.datasets'' ''movielens'') ''load_pandas_df'',
           call_args = [],
           call_kwargs = [(''size'', StrV ''100k''),
             (''header'', ListV [StrV ''userID'', StrV ''itemID'', StrV ''rating''])]\<rparr>),
      (4, \<lparr>call_fun = ImportedV ''recommenders.datasets.python_splitters'' ''python_random_split'',
           call_args = [ReturnedV 2, FloatV 75 2], call_kwargs = []\<rparr>),
      (5, \<lparr>call_fun = AttrV (ItemV (ReturnedV 4) 0) ''itertuples'',
           call_args = [], call_kwargs = [(''index'', BoolV False)]\<rparr>),
      (6, \<lparr>call_fun = AttrV (AttrV (AttrV (ModuleV ''cornac'') ''data'') ''Dataset'') ''from_uir'',
           call_args = [ReturnedV 5],
           call_kwargs = [(''seed'', ImportedV ''recommenders.utils.constants'' ''SEED'')]\<rparr>),
      (11, \<lparr>call_fun = ImportedV ''recommenders.models.cornac.bpr'' ''BPR'',
            call_args = [],
            call_kwargs =
              [(''k'', IntV 200), (''max_iter'', IntV 100), (''learning_rate'', FloatV 1 2),
               (''lambda_reg'', FloatV 1 3), (''verbose'', BoolV True),
               (''seed'', ImportedV ''recommenders.utils.constants'' ''SEED'')]\<rparr>),
      (13, \<lparr>call_fun = AttrV (ReturnedV 11) ''fit'',
            call_args = [ReturnedV 6], call_kwargs = []\<rparr>),
      (16, \<lparr>call_fun = AttrV (ReturnedV 11) ''recommend_k_items'',
            call_args = [ItemV (ReturnedV 4) 0],
            call_kwargs = [(''col_user'', StrV ''userID''), (''col_item'', StrV ''itemID''),
              (''remove_seen'', BoolV True)]\<rparr>),
      (19, \<lparr>call_fun = ImportedV ''recommenders.evaluation.python_evaluation'' ''map'',
            call_args = [ItemV (ReturnedV 4) 1, ReturnedV 16],
            call_kwargs = [(''col_prediction'', StrV ''prediction''), (''k'', IntV 10)]\<rparr>),
      (20, \<lparr>call_fun = ImportedV ''recommenders.evaluation.python_evaluation'' ''ndcg_at_k'',
            call_args = [ItemV (ReturnedV 4) 1, ReturnedV 16],
            call_kwargs = [(''col_prediction'', StrV ''prediction''), (''k'', IntV 10)]\<rparr>),
      (21, \<lparr>call_fun = ImportedV ''recommenders.evaluation.python_evaluation'' ''precision_at_k'',
            call_args = [ItemV (ReturnedV 4) 1, ReturnedV 16],
            call_kwargs = [(''col_prediction'', StrV ''prediction''), (''k'', IntV 10)]\<rparr>),
      (22, \<lparr>call_fun = ImportedV ''recommenders.evaluation.python_evaluation'' ''recall_at_k'',
            call_args = [ItemV (ReturnedV 4) 1, ReturnedV 16],
            call_kwargs = [(''col_prediction'', StrV ''prediction''), (''k'', IntV 10)]\<rparr>),
      (24, \<lparr>call_fun = ImportedV ''recommenders.utils.notebook_utils'' ''store_metadata'',
            call_args = [StrV ''map'', ReturnedV 19], call_kwargs = []\<rparr>),
      (25, \<lparr>call_fun = ImportedV ''recommenders.utils.notebook_utils'' ''store_metadata'',
            call_args = [StrV ''ndcg'', ReturnedV 20], call_kwargs = []\<rparr>),
      (26, \<lparr>call_fun = ImportedV ''recommenders.utils.notebook_utils'' ''store_metadata'',
            call_args = [StrV ''precision'', ReturnedV 21], call_kwargs = []\<rparr>),
      (27, \<lparr>call_fun = ImportedV ''recommenders.utils.notebook_utils'' ''store_metadata'',
            call_args = [StrV ''recall'', ReturnedV 22], call_kwargs = []\<rparr>)] \<and>
   consumes_earlier (stage_calls (calls_of (run notebook))) \<and>
   map (global_of (run notebook))
     [''data'', ''train'', ''test'', ''train_set'', ''bpr'', ''all_predictions'',
      ''eval_map'', ''eval_ndcg'', ''eval_precision'', ''eval_recall''] =
     [Some (ReturnedV 2), Some (ItemV (ReturnedV 4) 0), Some (ItemV (ReturnedV 4) 1),
      Some (ReturnedV 6), Some (ReturnedV 11), Some (ReturnedV 16),
      Some (ReturnedV 19), Some (ReturnedV 20), Some (ReturnedV 21), Some (ReturnedV 22)] \<and>
   map (\<lambda>c. (call_fun c, call_refs c)) (take 1 (drop 23 (calls_of (run notebook)))) =
     [(BuiltinV ''print'', [19, 20, 21, 22])]"
proof -
  have ok: "\<exists>st. run notebook = Inr st"
    using run_notebook by blast
  from conjI [OF ok conjI [OF stage_calls_notebook conjI [OF consumes_earlier_notebook
      conjI [OF pipeline_globals emit_call_notebook]]]]
  show ?thesis .
qed

section \<open>Properties of the triggers of azureml-gpu-nightly\<close>

lemma matches_literal_prefix:
  "matches (map Ch p @ ts) s = (prefix p s \<and> matches ts (drop (length p) s))"
proof (induction p arbitrary: s)
  case Nil
  show ?case by simp
next
  case (Cons c p)
  show ?case
  proof (cases s)
    case Nil
    then show ?thesis by simp
  next
    case (Cons d ds)
    then show ?thesis using Cons.IH [of ds] by auto
  qed
qed

lemma matches_literal: "matches (map Ch p) s = (s = p)"
proof -
  have "matches (map Ch p @ []) s = (prefix p s \<and> matches [] (drop (length p) s))"
    by (rule matches_literal_prefix)
  then show ?thesis
    by (auto simp: prefix_def)
qed

lemma matches_double_star [simp]: "matches [DoubleStar] s"
  by (induction s) auto

lemma matches_star_literal:
  "matches (Star # map Ch q) r = (\<exists>x. r = x @ q \<and> CHR ''/'' \<notin> set x)"
proof (induction r)
  case Nil
  show ?case by (auto simp: matches_literal)
next
  case (Cons d ds)
  show ?case
  proof
    assume "matches (Star # map Ch q) (d # ds)"
    then consider "d # ds = q" | "d \<noteq> CHR ''/''" "matches (Star # map Ch q) ds"
      by (auto simp: matches_literal)
    then show "\<exists>x. d # ds = x @ q \<and> CHR ''/'' \<notin> set x"
    proof cases
      case 1
      then show ?thesis by (intro exI [of _ "[]"]) simp
    next
      case 2
      then obtain x where "ds = x @ q" "CHR ''/'' \<notin> set x" using Cons.IH by auto
      with 2 show ?thesis by (intro exI [of _ "d # x"]) simp
    qed
  next
    assume "\<exists>x. d # ds = x @ q \<and> CHR ''/'' \<notin> set x"
    then obtain x where x: "d # ds = x @ q" "CHR ''/'' \<notin> set x" by auto
    show "matches (Star # map Ch q) (d # ds)"
    proof (cases x)
      case Nil
      with x show ?thesis by (simp add: matches_literal)
    next
      case (Cons e es)
      with x have "d = e" "ds = es @ q" "e \<noteq> CHR ''/''" "CHR ''/'' \<notin> set es" by auto
      then show ?thesis using Cons.IH by auto
    qed
  qed
qed

lemma matches_any_dir_star_literal:
  "matches (DoubleStar # Ch (CHR ''/'') # Star # map Ch q) r = suffix q r"
proof
  assume "matches (DoubleStar # Ch (CHR ''/'') # Star # map Ch q) r"
  then show "suffix q r"
  proof (induction r)
    case Nil
    then show ?case by (auto simp: matches_literal)
  next
    case (Cons d ds)
    from Cons.prems consider
        "matches (Ch (CHR ''/'') # Star # map Ch q) (d # ds)"
      | "matches (Star # map Ch q) (d # ds)"
      | "matches (DoubleStar # Ch (CHR ''/'') # Star # map Ch q) ds"
      by auto
    then show ?case
    proof cases
      case 1
      then have "matches (Star # map Ch q) ds" by simp
      then obtain x where "ds = x @ q" unfolding matches_star_literal by auto
      then have "d # ds = (d # x) @ q" by simp
      then show ?thesis unfolding suffix_def by blast
    next
      case 2
      then obtain x where "d # ds = x @ q" unfolding matches_star_literal by auto
      then show ?thesis by (auto simp: suffix_def)
    next
      case 3
      then have "suffix q ds" by (rule Cons.IH)
      then show ?thesis by (rule suffix_ConsI)
    qed
  qed
next
  assume "suffix q r"
  then obtain a where r: "r = a @ q" by (auto simp: suffix_def)
  have "matches (DoubleStar # Ch (CHR ''/'') # Star # map Ch q) (a @ q)"
  proof (induction a)
    case Nil
    have "matches (Star # map Ch q) q"
      unfolding matches_star_literal by (intro exI [of _ "[]"]) simp
    then show ?case by simp
  next
    case (Cons d ds)
    then show ?case by simp
  qed
  then show "matches (DoubleStar # Ch (CHR ''/'') # Star # map Ch q) r" using r by simp
qed

lemma suffix_md_below_dir:
  "suffix ''.md'' (p @ CHR ''/'' # r) = suffix ''.md'' r"
proof
  assume "suffix ''.md'' (p @ CHR ''/'' # r)"
  then have "suffix ''.md'' ((p @ [CHR ''/'']) @ r)" by simp
  then consider "suffix ''.md'' r"
    | xs where "''.md'' = xs @ r" "suffix xs (p @ [CHR ''/''])"
    unfolding suffix_append by blast
  then show "suffix ''.md'' r"
  proof cases
    case 1
    then show ?thesis .
  next
    case 2
    show ?thesis
    proof (cases "xs = []")
      case True
      with 2 show ?thesis by simp
    next
      case False
      from 2(2) obtain zs where "p @ [CHR ''/''] = zs @ xs" by (auto simp: suffix_def)
      then have "last (p @ [CHR ''/'']) = last (zs @ xs)" by simp
      with False have "last xs = CHR ''/''" by simp
      moreover have "last xs \<in> set xs" using False by simp
      ultimately have "CHR ''/'' \<in> set (xs @ r)" by auto
      with 2(1) have "CHR ''/'' \<in> set ''.md''" by simp
      then show ?thesis by simp
    qed
  qed
next
  assume "suffix ''.md'' r"
  then have "suffix ''.md'' ((p @ [CHR ''/'']) @ r)" by (rule suffix_appendI)
  then show "suffix ''.md'' (p @ CHR ''/'' # r)" by simp
qed


lemma tokens_literal_append:
  "CHR ''*'' \<notin> set p \<Longrightarrow> tokens (p @ q) = map Ch p @ tokens q"
proof (induction p)
  case Nil
  show ?case by simp
next
  case (Cons c p)
  then have ih: "tokens (p @ q) = map Ch p @ tokens q" and c: "c \<noteq> CHR ''*''" by auto
  show ?case
  proof (cases "p @ q")
    case Nil
    then show ?thesis using c by simp
  next
    case (Cons d rest)
    then have "tokens (c # p @ q) = Ch c # tokens (p @ q)" using c by simp
    then show ?thesis using ih by simp
  qed
qed

lemma glob_literal_prefix:
  assumes "CHR ''*'' \<notin> set p"
  shows "glob (p @ q) f = (prefix p f \<and> matches (tokens q) (drop (length p) f))"
  unfolding glob_def tokens_literal_append [OF assms] by (rule matches_literal_prefix)

lemma glob_literal:
  assumes "CHR ''*'' \<notin> set p"
  shows "glob p f = (f = p)"
proof -
  have "tokens (p @ []) = map Ch p @ tokens []" using assms by (rule tokens_literal_append)
  then show ?thesis by (simp add: glob_def matches_literal)
qed

lemma glob_below:
  assumes "CHR ''*'' \<notin> set d"
  shows "glob (d @ ''/**'') f = prefix (d @ ''/'') f"
proof -
  have star: "CHR ''*'' \<notin> set (d @ ''/'')" using assms by simp
  have eq: "d @ ''/**'' = (d @ ''/'') @ ''**''" by simp
  have t: "tokens ''**'' = [DoubleStar]" by simp
  show ?thesis
    unfolding eq glob_literal_prefix [OF star] t
    by (simp only: matches_double_star simp_thms)
qed

lemma glob_md_below:
  assumes "CHR ''*'' \<notin> set d"
  shows "glob (d @ ''/**/*.md'') f = (prefix (d @ ''/'') f \<and> suffix ''.md'' f)"
proof -
  have star: "CHR ''*'' \<notin> set (d @ ''/'')" using assms by simp
  have t: "tokens ''**/*.md'' = DoubleStar # Ch (CHR ''/'') # Star # map Ch ''.md''" by simp
  have eq: "d @ ''/**/*.md'' = (d @ ''/'') @ ''**/*.md''" by simp
  have g: "glob (d @ ''/**/*.md'') f =
      (prefix (d @ ''/'') f \<and> suffix ''.md'' (drop (length (d @ ''/'')) f))"
    unfolding eq glob_literal_prefix [OF star] t matches_any_dir_star_literal ..
  show ?thesis
  proof (cases "prefix (d @ ''/'') f")
    case False
    then show ?thesis using g by simp
  next
    case True
    then obtain r where f: "f = (d @ ''/'') @ r" by (auto simp: prefix_def)
    have "suffix ''.md'' (d @ CHR ''/'' # r) = suffix ''.md'' r" by (rule suffix_md_below_dir)
    then show ?thesis using g f by simp
  qed
qed

lemma path_selected_gpu_nightly:
  "path_selected
     [''examples/**'', ''!examples/**/*.md'', ''recommenders/**'', ''!recommenders/**/*.md'',
      ''tests/**'', ''!tests/**/*.md'', ''setup.py''] f =
   (((prefix ''examples/'' f \<or> prefix ''recommenders/'' f \<or> prefix ''tests/'' f) \<and>
       \<not> suffix ''.md'' f) \<or> f = ''setup.py'')"
proof -
  have e: "glob ''examples/**'' f = prefix ''examples/'' f"
    using glob_below [of "''examples''" f] by simp
  have r: "glob ''recommenders/**'' f = prefix ''recommenders/'' f"
    using glob_below [of "''recommenders''" f] by simp
  have t: "glob ''tests/**'' f = prefix ''tests/'' f"
    using glob_below [of "''tests''" f] by simp
  have em: "glob ''examples/**/*.md'' f = (prefix ''examples/'' f \<and> suffix ''.md'' f)"
    using glob_md_below [of "''examples''" f] by simp
  have rm: "glob ''recommenders/**/*.md'' f = (prefix ''recommenders/'' f \<and> suffix ''.md'' f)"
    using glob_md_below [of "''recommenders''" f] by simp
  have tm: "glob ''tests/**/*.md'' f = (prefix ''tests/'' f \<and> suffix ''.md'' f)"
    using glob_md_below [of "''tests''" f] by simp
  have s: "glob ''setup.py'' f = (f = ''setup.py'')"
    using glob_literal [of "''setup.py''" f] by simp
  show ?thesis
    unfolding path_selected_def
    by (simp add: path_step_def e r t em rm tm s)
qed

lemma path_filter_gpu_nightly:
  "path_selected
     [''examples/**'', ''!examples/**/*.md'', ''recommenders/**'', ''!recommenders/**/*.md'',
      ''tests/**'', ''!tests/**/*.md'', ''setup.py''] =
   (\<lambda>f. ((prefix ''examples/'' f \<or> prefix ''recommenders/'' f \<or> prefix ''tests/'' f) \<and>
       \<not> suffix ''.md'' f) \<or> f = ''setup.py'')"
  by (rule ext) (rule path_selected_gpu_nightly)

lemma branch_staging: "glob ''staging'' b = (b = ''staging'')"
  using glob_literal [of "''staging''" b] by simp

text \<open>
  Claim C7. The workflow azureml-gpu-nightly declares exactly four kinds of trigger, and
  fires on nothing else: on the cron schedule \<open>0 0 */5 * *\<close>; on a push to the branch
  \<open>staging\<close> that changes a file under \<open>examples/\<close>, \<open>recommenders/\<close> or \<open>tests/\<close> other
  than a Markdown file, or changes \<open>setup.py\<close>; on a manual dispatch, whose one input
  \<open>tags\<close> is optional; and on a call from another workflow.
\<close>

theorem gpu_nightly_triggers:
  "map trigger_kind gpu_nightly_on =
     [''schedule'', ''push'', ''workflow_dispatch'', ''workflow_call''] \<and>
   fires gpu_nightly_on (CronTick c) = (c = ''0 0 */5 * *'') \<and>
   fires gpu_nightly_on (PushEvent b files) =
     (b = ''staging'' \<and>
      list_ex (\<lambda>f. ((prefix ''examples/'' f \<or> prefix ''recommenders/'' f \<or> prefix ''tests/'' f) \<and>
                     \<not> suffix ''.md'' f) \<or> f = ''setup.py'') files) \<and>
   fires gpu_nightly_on (DispatchEvent given) \<and>
   map (\<lambda>t. (trigger_kind t, optional_inputs t)) (filter (\<lambda>t. trigger_kind t = ''workflow_dispatch'') gpu_nightly_on) =
     [(''workflow_dispatch'', [''tags''])] \<and>
   fires gpu_nightly_on CallEvent \<and>
   \<not> fires gpu_nightly_on (OtherEvent e)"
  by (simp add: gpu_nightly_on_def fires_def optional_inputs_def branch_staging
      path_filter_gpu_nightly)

text \<open>The theorem at four pushes.\<close>

theorem gpu_nightly_triggers_witness:
  "fires gpu_nightly_on (PushEvent ''staging'' [''README.md'', ''tests/unit/test_x.py'']) \<and>
   \<not> fires gpu_nightly_on (PushEvent ''staging'' [''README.md'', ''examples/README.md'']) \<and>
   \<not> fires gpu_nightly_on (PushEvent ''main'' [''setup.py'']) \<and>
   fires gpu_nightly_on (PushEvent ''staging'' [''setup.py''])"
  using gpu_nightly_triggers [of _ "''staging''" "[''README.md'', ''tests/unit/test_x.py'']"]
    gpu_nightly_triggers [of _ "''staging''" "[''README.md'', ''examples/README.md'']"]
    gpu_nightly_triggers [of _ "''main''" "[''setup.py'']"]
    gpu_nightly_triggers [of _ "''staging''" "[''setup.py'']"]
  by (simp add: suffix_to_prefix)

section \<open>Properties of the random split\<close>













lemma sample_any_order:
  "distinct rest \<Longrightarrow> mset p = mset rest \<Longrightarrow> \<exists>rnd. sample rnd (length rest) rest = p"
proof (induction p arbitrary: rest)
  case Nil
  then show ?case by simp
next
  case (Cons x p)
  from Cons.prems(2) have "x \<in> set rest"
    by (metis list.set_intros(1) mset_eq_setD)
  then obtain i where i: "i < length rest" and x: "rest ! i = x"
    by (auto simp: in_set_conv_nth)
  let ?rest = "take i rest @ drop (Suc i) rest"
  have split: "rest = take i rest @ x # drop (Suc i) rest"
    using id_take_nth_drop [OF i] x by simp
  have "mset (x # p) = mset (take i rest @ x # drop (Suc i) rest)"
    using Cons.prems(2) split by simp
  then have m: "mset p = mset ?rest" by simp
  have "distinct (take i rest @ x # drop (Suc i) rest)"
    using Cons.prems(1) split by simp
  then have d: "distinct ?rest" by simp
  from Cons.IH [OF d m] obtain rnd where r: "sample rnd (length ?rest) ?rest = p" by blast
  have len: "length rest = Suc (length ?rest)" using i by simp
  have ne: "rest \<noteq> []" using i by (cases rest) simp_all
  have pos: "0 < length rest" using ne by simp
  have md: "(i + length rest * rnd) mod length rest = i" using i by simp
  have dv: "(i + length rest * rnd) div length rest = rnd" using i pos by simp
  have "sample (i + length rest * rnd) (Suc (length ?rest)) rest = x # p"
    using ne r x by (simp only: sample.simps if_False Let_def md dv)
  then show ?case using len by metis
qed

lemma permutation_any_order:
  "mset p = mset [0..<n] \<Longrightarrow> \<exists>rnd. permutation rnd n = p"
  using sample_any_order [of "[0..<n]" p] by (simp add: permutation_def)




end
